theory Spec2Isabelle
  imports Complex_Main "HOL-Library.Word" "HOL-Library.Sublist"
begin

unbundle bit_operations_syntax

section \<open>Dynamic wallpaper metadata and writer\<close>

text \<open>
  A shallow embedding of \<^verbatim>\<open>src/lib/kdynamicwallpapermetadata.h\<close> and
  \<^verbatim>\<open>src/lib/kdynamicwallpaperwriter.cpp\<close>. Byte arrays (\<^verbatim>\<open>QByteArray\<close>) and
  strings (\<^verbatim>\<open>QString\<close>) are \<^typ>\<open>string\<close>; \<^verbatim>\<open>qreal\<close> values are only stored and
  read back, never computed with, and are carried as \<^typ>\<open>real\<close>; a C \<^verbatim>\<open>int\<close> is a
  32-bit signed word.
\<close>

subsection \<open>JSON values (QJsonValue, QJsonObject)\<close>

datatype QJsonValue =
    Null
  | Bool bool
  | Double real
  | String string
  | Array "QJsonValue list"
  | Object "(string \<times> QJsonValue) list"
  | Undefined

type_synonym QJsonObject = "(string \<times> QJsonValue) list"

text \<open>\<^verbatim>\<open>object[key]\<close> on a constant object: the value stored under the key, or
  \<^verbatim>\<open>Undefined\<close> when the key is absent.\<close>

definition QJsonObject_value :: "QJsonObject \<Rightarrow> string \<Rightarrow> QJsonValue" where
  "QJsonObject_value object key' =
     (case map_of object key' of None \<Rightarrow> Undefined | Some v \<Rightarrow> v)"

text \<open>\<^verbatim>\<open>object[key] = value\<close>: replaces the value of an existing key, inserts the
  pair otherwise.\<close>

fun QJsonObject_insert :: "QJsonObject \<Rightarrow> string \<Rightarrow> QJsonValue \<Rightarrow> QJsonObject" where
  "QJsonObject_insert [] k v = [(k, v)]"
| "QJsonObject_insert ((k', v') # object) k v =
     (if k' = k then (k, v) # object else (k', v') # QJsonObject_insert object k v)"

definition isBool :: "QJsonValue \<Rightarrow> bool" where
  "isBool v = (case v of Bool _ \<Rightarrow> True | _ \<Rightarrow> False)"

definition isDouble :: "QJsonValue \<Rightarrow> bool" where
  "isDouble v = (case v of Double _ \<Rightarrow> True | _ \<Rightarrow> False)"

definition toBool :: "QJsonValue \<Rightarrow> bool" where
  "toBool v = (case v of Bool b \<Rightarrow> b | _ \<Rightarrow> False)"

definition toDouble :: "QJsonValue \<Rightarrow> real" where
  "toDouble v = (case v of Double x \<Rightarrow> x | _ \<Rightarrow> 0)"

text \<open>A JSON number holds a C \<^verbatim>\<open>int\<close> when it is integral and lies in the range of
  a 32-bit signed integer.\<close>

definition isInt :: "QJsonValue \<Rightarrow> bool" where
  "isInt v = (case v of
       Double x \<Rightarrow> real_of_int \<lfloor>x\<rfloor> = x \<and> - (2 ^ 31) \<le> \<lfloor>x\<rfloor> \<and> \<lfloor>x\<rfloor> < 2 ^ 31
     | _ \<Rightarrow> False)"

definition toInt :: "QJsonValue \<Rightarrow> 32 word" where
  "toInt v = (if isInt v then word_of_int \<lfloor>toDouble v\<rfloor> else 0)"

definition QJsonValue_of_int :: "32 word \<Rightarrow> QJsonValue" where
  "QJsonValue_of_int i = Double (real_of_int (sint i))"

subsection \<open>KDynamicWallpaperMetaData\<close>

datatype CrossFadeMode = NoCrossFade | CrossFade

type_synonym MetaDataFields = "32 word"

definition CrossFadeField :: MetaDataFields where
  "CrossFadeField = push_bit 0 1"

definition TimeField :: MetaDataFields where
  "TimeField = push_bit 1 1"

definition SolarAzimuthField :: MetaDataFields where
  "SolarAzimuthField = push_bit 2 1"

definition SolarElevationField :: MetaDataFields where
  "SolarElevationField = push_bit 3 1"

definition IndexField :: MetaDataFields where
  "IndexField = push_bit 4 1"

text \<open>Modelled from the spec: the private data behind the shared pointer of a record
  (\<^verbatim>\<open>KDynamicWallpaperMetaDataPrivate\<close> is only forward-declared in the header): the
  presence bitmask and the five values of the specification's data model.\<close>

record KDynamicWallpaperMetaData =
  md_presentFields :: MetaDataFields
  md_crossFadeMode :: CrossFadeMode
  md_time :: real
  md_solarElevation :: real
  md_solarAzimuth :: real
  md_index :: "32 word"

text \<open>Modelled from the spec: the constructor, whose body is not in the header. A record
  is constructed with no field present; the values of absent fields are not fixed by the
  specification and are taken to be zero and \<^verbatim>\<open>NoCrossFade\<close>.\<close>

definition KDynamicWallpaperMetaData_new :: KDynamicWallpaperMetaData where
  "KDynamicWallpaperMetaData_new =
     \<lparr>md_presentFields = 0, md_crossFadeMode = NoCrossFade, md_time = 0,
      md_solarElevation = 0, md_solarAzimuth = 0, md_index = 0\<rparr>"

text \<open>Modelled from the spec: the body of \<^verbatim>\<open>fields()\<close>, which returns the presence
  bitmask.\<close>

definition fields_of :: "KDynamicWallpaperMetaData \<Rightarrow> MetaDataFields" where
  "fields_of md = md_presentFields md"

text \<open>Modelled from the spec: the body of \<^verbatim>\<open>isValid()\<close>, true iff the bitmask is
  non-zero.\<close>

definition isValid :: "KDynamicWallpaperMetaData \<Rightarrow> bool" where
  "isValid md = (md_presentFields md \<noteq> 0)"

text \<open>Modelled from the spec: the body of \<^verbatim>\<open>setCrossFadeMode\<close>. Each of the five
  setters stores the value and sets the corresponding presence bit; no range is
  validated.\<close>

definition setCrossFadeMode :: "CrossFadeMode \<Rightarrow> KDynamicWallpaperMetaData \<Rightarrow> KDynamicWallpaperMetaData" where
  "setCrossFadeMode mode md =
     md\<lparr>md_crossFadeMode := mode, md_presentFields := md_presentFields md OR CrossFadeField\<rparr>"

text \<open>Modelled from the spec: the body of \<^verbatim>\<open>setTime\<close>.\<close>

definition setTime :: "real \<Rightarrow> KDynamicWallpaperMetaData \<Rightarrow> KDynamicWallpaperMetaData" where
  "setTime t md =
     md\<lparr>md_time := t, md_presentFields := md_presentFields md OR TimeField\<rparr>"

text \<open>Modelled from the spec: the body of \<^verbatim>\<open>setSolarElevation\<close>.\<close>

definition setSolarElevation :: "real \<Rightarrow> KDynamicWallpaperMetaData \<Rightarrow> KDynamicWallpaperMetaData" where
  "setSolarElevation elevation md =
     md\<lparr>md_solarElevation := elevation,
        md_presentFields := md_presentFields md OR SolarElevationField\<rparr>"

text \<open>Modelled from the spec: the body of \<^verbatim>\<open>setSolarAzimuth\<close>.\<close>

definition setSolarAzimuth :: "real \<Rightarrow> KDynamicWallpaperMetaData \<Rightarrow> KDynamicWallpaperMetaData" where
  "setSolarAzimuth azimuth md =
     md\<lparr>md_solarAzimuth := azimuth,
        md_presentFields := md_presentFields md OR SolarAzimuthField\<rparr>"

text \<open>Modelled from the spec: the body of \<^verbatim>\<open>setIndex\<close>.\<close>

definition setIndex :: "32 word \<Rightarrow> KDynamicWallpaperMetaData \<Rightarrow> KDynamicWallpaperMetaData" where
  "setIndex i md =
     md\<lparr>md_index := i, md_presentFields := md_presentFields md OR IndexField\<rparr>"

text \<open>Modelled from the spec: the body of \<^verbatim>\<open>crossFadeMode()\<close>. Each of the five
  accessors returns the stored value regardless of presence.\<close>

definition crossFadeMode :: "KDynamicWallpaperMetaData \<Rightarrow> CrossFadeMode" where
  "crossFadeMode md = md_crossFadeMode md"

text \<open>Modelled from the spec: the body of \<^verbatim>\<open>time()\<close>.\<close>

definition time :: "KDynamicWallpaperMetaData \<Rightarrow> real" where
  "time md = md_time md"

text \<open>Modelled from the spec: the body of \<^verbatim>\<open>solarElevation()\<close>.\<close>

definition solarElevation :: "KDynamicWallpaperMetaData \<Rightarrow> real" where
  "solarElevation md = md_solarElevation md"

text \<open>Modelled from the spec: the body of \<^verbatim>\<open>solarAzimuth()\<close>.\<close>

definition solarAzimuth :: "KDynamicWallpaperMetaData \<Rightarrow> real" where
  "solarAzimuth md = md_solarAzimuth md"

text \<open>Modelled from the spec: the body of \<^verbatim>\<open>index()\<close>.\<close>

definition index :: "KDynamicWallpaperMetaData \<Rightarrow> 32 word" where
  "index md = md_index md"

text \<open>Modelled from the spec: the body of \<^verbatim>\<open>toJson()\<close>, which produces an object
  with exactly the keys of the present fields, under the key names the specification
  lists; the cross-fade mode is a boolean, the other fields are numbers.\<close>

definition toJson :: "KDynamicWallpaperMetaData \<Rightarrow> QJsonObject" where
  "toJson md =
     (let object = [];
          object = (if md_presentFields md AND CrossFadeField \<noteq> 0
                    then QJsonObject_insert object ''CrossFade''
                           (Bool (md_crossFadeMode md = CrossFade))
                    else object);
          object = (if md_presentFields md AND TimeField \<noteq> 0
                    then QJsonObject_insert object ''Time'' (Double (md_time md))
                    else object);
          object = (if md_presentFields md AND SolarElevationField \<noteq> 0
                    then QJsonObject_insert object ''SolarElevation''
                           (Double (md_solarElevation md))
                    else object);
          object = (if md_presentFields md AND SolarAzimuthField \<noteq> 0
                    then QJsonObject_insert object ''SolarAzimuth''
                           (Double (md_solarAzimuth md))
                    else object);
          object = (if md_presentFields md AND IndexField \<noteq> 0
                    then QJsonObject_insert object ''Index'' (QJsonValue_of_int (md_index md))
                    else object)
      in object)"

text \<open>Modelled from the spec: the body of \<^verbatim>\<open>fromJson(object)\<close>, which reads
  whichever of the known keys are present with a value of the right type, sets that
  field and its presence bit, and ignores everything else.\<close>

definition fromJson :: "QJsonObject \<Rightarrow> KDynamicWallpaperMetaData" where
  "fromJson object =
     (let metaData = KDynamicWallpaperMetaData_new;
          crossFade = QJsonObject_value object ''CrossFade'';
          metaData = (if isBool crossFade
                      then setCrossFadeMode (if toBool crossFade then CrossFade else NoCrossFade)
                             metaData
                      else metaData);
          t = QJsonObject_value object ''Time'';
          metaData = (if isDouble t then setTime (toDouble t) metaData else metaData);
          elevation = QJsonObject_value object ''SolarElevation'';
          metaData = (if isDouble elevation
                      then setSolarElevation (toDouble elevation) metaData else metaData);
          azimuth = QJsonObject_value object ''SolarAzimuth'';
          metaData = (if isDouble azimuth
                      then setSolarAzimuth (toDouble azimuth) metaData else metaData);
          i = QJsonObject_value object ''Index'';
          metaData = (if isInt i then setIndex (toInt i) metaData else metaData)
      in metaData)"

text \<open>A call of one of the five setters, and a sequence of such calls applied to a
  record in order.\<close>

datatype SetterCall =
    SetCrossFadeMode CrossFadeMode
  | SetTime real
  | SetSolarElevation real
  | SetSolarAzimuth real
  | SetIndex "32 word"

fun callSetter :: "KDynamicWallpaperMetaData \<Rightarrow> SetterCall \<Rightarrow> KDynamicWallpaperMetaData" where
  "callSetter md (SetCrossFadeMode mode) = setCrossFadeMode mode md"
| "callSetter md (SetTime t) = setTime t md"
| "callSetter md (SetSolarElevation e) = setSolarElevation e md"
| "callSetter md (SetSolarAzimuth a) = setSolarAzimuth a md"
| "callSetter md (SetIndex i) = setIndex i md"

fun flagOf :: "SetterCall \<Rightarrow> MetaDataFields" where
  "flagOf (SetCrossFadeMode _) = CrossFadeField"
| "flagOf (SetTime _) = TimeField"
| "flagOf (SetSolarElevation _) = SolarElevationField"
| "flagOf (SetSolarAzimuth _) = SolarAzimuthField"
| "flagOf (SetIndex _) = IndexField"

definition built :: "SetterCall list \<Rightarrow> KDynamicWallpaperMetaData" where
  "built calls = foldl callSetter KDynamicWallpaperMetaData_new calls"

text \<open>The bitwise union of a list of flags.\<close>

definition unionOf :: "MetaDataFields list \<Rightarrow> MetaDataFields" where
  "unionOf fs = foldr (OR) fs 0"

text \<open>All five presence flags together.\<close>

definition allFields :: MetaDataFields where
  "allFields =
     CrossFadeField OR TimeField OR SolarElevationField OR SolarAzimuthField OR IndexField"

subsection \<open>Byte arrays (QByteArray)\<close>

definition base64Alphabet :: string where
  "base64Alphabet = ''ABCDEFGHIJKLMNOPQRSTUVWXYZabcdefghijklmnopqrstuvwxyz0123456789+/''"

definition base64Char :: "nat \<Rightarrow> char" where
  "base64Char n = base64Alphabet ! (n mod 64)"

text \<open>\<^verbatim>\<open>QByteArray::toBase64()\<close> with its default options: the standard alphabet, three
  bytes to four characters, padded with \<^verbatim>\<open>=\<close>.\<close>

fun toBase64 :: "string \<Rightarrow> string" where
  "toBase64 (a # b # c # rest) =
     (let chunk = of_char a * 65536 + of_char b * 256 + of_char c
      in [base64Char (chunk div 262144), base64Char (chunk div 4096),
          base64Char (chunk div 64), base64Char chunk]) @ toBase64 rest"
| "toBase64 [a, b] =
     (let chunk = of_char a * 65536 + of_char b * 256
      in [base64Char (chunk div 262144), base64Char (chunk div 4096),
          base64Char (chunk div 64), CHR ''=''])"
| "toBase64 [a] =
     (let chunk = of_char a * 65536
      in [base64Char (chunk div 262144), base64Char (chunk div 4096), CHR ''='', CHR ''=''])"
| "toBase64 [] = []"

text \<open>\<^verbatim>\<open>QByteArray::replace(before, after)\<close>: every occurrence of \<^verbatim>\<open>before\<close>, found
  from left to right without overlap, is replaced by \<^verbatim>\<open>after\<close>; the inserted bytes are
  not searched again. An empty \<^verbatim>\<open>before\<close> matches before every byte and at the end.\<close>

function QByteArray_replace :: "string \<Rightarrow> string \<Rightarrow> string \<Rightarrow> string" where
  "QByteArray_replace [] bef after = (if bef = [] then after else [])"
| "QByteArray_replace (x # xs) bef after =
     (if bef = [] then after @ x # QByteArray_replace xs bef after
      else if prefix bef (x # xs)
      then after @ QByteArray_replace (drop (length bef) (x # xs)) bef after
      else x # QByteArray_replace xs bef after)"
  by pat_completeness auto
termination
  by (relation "measure (\<lambda>(xs, bef, after). length xs)") auto

text \<open>The positions at which a byte sequence occurs in a byte array.\<close>

definition occurrences :: "string \<Rightarrow> string \<Rightarrow> nat list" where
  "occurrences bef xs = filter (\<lambda>i. prefix bef (drop i xs)) [0..<Suc (length xs)]"

subsection \<open>Images (QImage)\<close>

datatype QImage_Format =
    Format_Invalid
  | Format_Mono
  | Format_Indexed8
  | Format_RGB32
  | Format_ARGB32
  | Format_ARGB32_Premultiplied
  | Format_RGB16
  | Format_RGB888
  | Format_Other nat

record QImage =
  img_format :: QImage_Format
  img_width :: int
  img_height :: int
  img_bytesPerLine :: int
  img_bits :: string

text \<open>A default-constructed \<^verbatim>\<open>QImage\<close>: the null image, of format
  \<^verbatim>\<open>Format_Invalid\<close>.\<close>

definition QImage_null :: QImage where
  "QImage_null =
     \<lparr>img_format = Format_Invalid, img_width = 0, img_height = 0, img_bytesPerLine = 0,
      img_bits = []\<rparr>"

definition isNull :: "QImage \<Rightarrow> bool" where
  "isNull img = (img_format img = Format_Invalid)"

subsection \<open>Output devices (QIODevice, QFile)\<close>

type_synonym OpenMode = "32 word"

definition NotOpen :: OpenMode where
  "NotOpen = 0"

definition ReadOnly :: OpenMode where
  "ReadOnly = 1"

definition WriteOnly :: OpenMode where
  "WriteOnly = 2"

text \<open>A device: its open mode, its last error text, the bytes written to it so far,
  and how the next call of \<^verbatim>\<open>open()\<close> will end (whether it succeeds, and the error
  text it leaves when it does not).\<close>

record QIODevice =
  dev_openMode :: OpenMode
  dev_errorString :: string
  dev_bytes :: string
  dev_openable :: bool
  dev_openError :: string

definition isOpen :: "QIODevice \<Rightarrow> bool" where
  "isOpen device = (dev_openMode device \<noteq> NotOpen)"

definition isWritable :: "QIODevice \<Rightarrow> bool" where
  "isWritable device = (dev_openMode device AND WriteOnly \<noteq> 0)"

definition QIODevice_open :: "QIODevice \<Rightarrow> OpenMode \<Rightarrow> bool \<times> QIODevice" where
  "QIODevice_open device mode =
     (if dev_openable device then (True, device\<lparr>dev_openMode := mode\<rparr>)
      else (False, device\<lparr>dev_errorString := dev_openError device\<rparr>))"

definition QIODevice_write :: "QIODevice \<Rightarrow> string \<Rightarrow> QIODevice" where
  "QIODevice_write device data = device\<lparr>dev_bytes := dev_bytes device @ data\<rparr>"

text \<open>The files of the file system, and for each path that cannot be opened for
  writing the error text of the failed attempt.\<close>

record FileSystem =
  fs_files :: "string \<rightharpoonup> string"
  fs_openError :: "string \<rightharpoonup> string"

text \<open>\<^verbatim>\<open>QFile file(fileName)\<close>: a closed device for the path; nothing is opened or
  created.\<close>

definition QFile :: "FileSystem \<Rightarrow> string \<Rightarrow> QIODevice" where
  "QFile fs fileName =
     \<lparr>dev_openMode = NotOpen, dev_errorString = ''Unknown error'', dev_bytes = [],
      dev_openable = (fs_openError fs fileName = None),
      dev_openError = (case fs_openError fs fileName of None \<Rightarrow> [] | Some e \<Rightarrow> e)\<rparr>"

subsection \<open>The codec (libavif)\<close>

type_synonym avifResult = nat

definition AVIF_RESULT_OK :: avifResult where
  "AVIF_RESULT_OK = 0"

datatype avifPixelFormat =
    AVIF_PIXEL_FORMAT_NONE
  | AVIF_PIXEL_FORMAT_YUV444
  | AVIF_PIXEL_FORMAT_YUV422
  | AVIF_PIXEL_FORMAT_YUV420
  | AVIF_PIXEL_FORMAT_YUV400

datatype avifRGBFormat =
    AVIF_RGB_FORMAT_RGB
  | AVIF_RGB_FORMAT_RGBA
  | AVIF_RGB_FORMAT_ARGB
  | AVIF_RGB_FORMAT_BGR
  | AVIF_RGB_FORMAT_BGRA
  | AVIF_RGB_FORMAT_ABGR

datatype avifAddImageFlag = AVIF_ADD_IMAGE_FLAG_NONE

record avifImage =
  avif_width :: int
  avif_height :: int
  avif_depth :: int
  avif_yuvFormat :: avifPixelFormat
  avif_xmp :: string
  avif_yuvPlanes :: string

record avifRGBImage =
  rgb_width :: int
  rgb_height :: int
  rgb_depth :: int
  rgb_format :: avifRGBFormat
  rgb_rowBytes :: int
  rgb_pixels :: string

definition avifImageCreate :: "int \<Rightarrow> int \<Rightarrow> int \<Rightarrow> avifPixelFormat \<Rightarrow> avifImage" where
  "avifImageCreate width height depth yuvFormat =
     \<lparr>avif_width = width, avif_height = height, avif_depth = depth,
      avif_yuvFormat = yuvFormat, avif_xmp = [], avif_yuvPlanes = []\<rparr>"

definition avifImageSetMetadataXMP :: "avifImage \<Rightarrow> string \<Rightarrow> avifImage" where
  "avifImageSetMetadataXMP avif xmp = avif\<lparr>avif_xmp := xmp\<rparr>"

definition avifRGBImageSetDefaults :: "avifImage \<Rightarrow> avifRGBImage" where
  "avifRGBImageSetDefaults avif =
     \<lparr>rgb_width = avif_width avif, rgb_height = avif_height avif, rgb_depth = avif_depth avif,
      rgb_format = AVIF_RGB_FORMAT_RGBA, rgb_rowBytes = 0, rgb_pixels = []\<rparr>"

subsection \<open>Collaborators\<close>

text \<open>
  What the writer calls but does not define, as parameters: the embedded resource
  \<^verbatim>\<open>:/kdynamicwallpaper/xmp/metadata.xml\<close> (the bytes \<^verbatim>\<open>readAll()\<close> returns), the
  compact text of a JSON array (\<^verbatim>\<open>QJsonDocument::toJson(Compact)\<close>), the pixel conversion
  behind \<^verbatim>\<open>QImage::convertToFormat\<close> (row stride and bits of the converted image),
  \<^verbatim>\<open>QThread::idealThreadCount()\<close>, and the codec: a new encoder, the assignment of its
  \<^verbatim>\<open>maxThreads\<close>, the conversion from RGB to YUV planes, the hand-over of a frame, the
  final container bytes, and the text of a result code. The encoder is a state of type
  \<^typ>\<open>'e\<close>.
\<close>

record 'e collaborators =
  templateFile :: string
  toJson_Compact :: "QJsonValue list \<Rightarrow> string"
  pixelConversion :: "QImage \<Rightarrow> QImage_Format \<Rightarrow> int \<times> string"
  idealThreadCount :: int
  avifEncoderCreate :: 'e
  avifEncoder_maxThreads_update :: "'e \<Rightarrow> int \<Rightarrow> 'e"
  avifImageRGBToYUV :: "avifImage \<Rightarrow> avifRGBImage \<Rightarrow> avifResult \<times> avifImage"
  avifEncoderAddImage :: "'e \<Rightarrow> avifImage \<Rightarrow> 64 word \<Rightarrow> avifAddImageFlag \<Rightarrow> avifResult \<times> 'e"
  avifEncoderFinish :: "'e \<Rightarrow> avifResult \<times> string"
  avifResultToString :: "avifResult \<Rightarrow> string"

text \<open>\<^verbatim>\<open>QImage::convertToFormat(format)\<close>: a null image, or an image already in the
  format, is returned as it is; an invalid target gives the null image; any other image
  is rewritten in the target format with the same size. A conversion that fails for
  lack of memory is not modelled.\<close>

definition convertToFormat :: "'e collaborators \<Rightarrow> QImage \<Rightarrow> QImage_Format \<Rightarrow> QImage" where
  "convertToFormat c img format =
     (if isNull img \<or> img_format img = format then img
      else if format = Format_Invalid then QImage_null
      else \<lparr>img_format = format, img_width = img_width img, img_height = img_height img,
            img_bytesPerLine = fst (pixelConversion c img format),
            img_bits = snd (pixelConversion c img format)\<rparr>)"

subsection \<open>KDynamicWallpaperWriter\<close>

text \<open>The error kinds the writer assigns and compares with; the enumeration itself is
  declared in the writer's header.\<close>

datatype WallpaperWriterError = NoError | DeviceError | EncoderError

text \<open>The state behind the writer's \<^verbatim>\<open>d\<close> pointer. The public class has no other
  state, so its members are functions of this record.\<close>

record KDynamicWallpaperWriterPrivate =
  d_wallpaperWriterError :: WallpaperWriterError
  d_errorString :: string
  d_images :: "QImage list"
  d_metaData :: "KDynamicWallpaperMetaData list"

definition KDynamicWallpaperWriterPrivate_new :: KDynamicWallpaperWriterPrivate where
  "KDynamicWallpaperWriterPrivate_new =
     \<lparr>d_wallpaperWriterError = NoError, d_errorString = [], d_images = [], d_metaData = []\<rparr>"

definition serializeMetaData :: "'e collaborators \<Rightarrow> KDynamicWallpaperMetaData list \<Rightarrow> string" where
  "serializeMetaData c metaData' =
     (let array = foldl (\<lambda>array md. array @ [Object (toJson md)]) [] metaData';
          base64 = toBase64 (toJson_Compact c array);
          xmp = templateFile c
      in QByteArray_replace xmp ''base64'' base64)"

text \<open>The loop of \<^verbatim>\<open>KDynamicWallpaperWriterPrivate::flush\<close> over the stored images;
  \<^verbatim>\<open>continue\<close> goes on with the remaining images.\<close>

fun flushImages ::
  "'e collaborators \<Rightarrow> string \<Rightarrow> QImage list \<Rightarrow> 'e \<Rightarrow> avifImage list \<Rightarrow> 'e \<times> avifImage list" where
  "flushImages c xmp [] encoder avifImages = (encoder, avifImages)"
| "flushImages c xmp (img # rest) encoder avifImages =
     (let avif = avifImageCreate (img_width img) (img_height img) 8 AVIF_PIXEL_FORMAT_YUV444;
          avif = avifImageSetMetadataXMP avif xmp;
          rgb = avifRGBImageSetDefaults avif;
          rgb = rgb\<lparr>rgb_format := AVIF_RGB_FORMAT_RGB, rgb_depth := 8,
                   rgb_rowBytes := img_bytesPerLine img, rgb_pixels := img_bits img\<rparr>;
          converted = avifImageRGBToYUV c avif rgb
      in if fst converted \<noteq> AVIF_RESULT_OK then flushImages c xmp rest encoder avifImages
         else
           (let added = avifEncoderAddImage c encoder (snd converted) 0 AVIF_ADD_IMAGE_FLAG_NONE
            in if fst added \<noteq> AVIF_RESULT_OK
               then flushImages c xmp rest (snd added) avifImages
               else flushImages c xmp rest (snd added) (avifImages @ [snd converted])))"

definition KDynamicWallpaperWriterPrivate_flush ::
  "'e collaborators \<Rightarrow> KDynamicWallpaperWriterPrivate \<Rightarrow> QIODevice \<Rightarrow>
     KDynamicWallpaperWriterPrivate \<times> QIODevice" where
  "KDynamicWallpaperWriterPrivate_flush c d device =
     (let xmp = serializeMetaData c (d_metaData d);
          encoder = avifEncoder_maxThreads_update c (avifEncoderCreate c) (idealThreadCount c);
          frames = flushImages c xmp (d_images d) encoder [];
          finished = avifEncoderFinish c (fst frames)
      in if fst finished = AVIF_RESULT_OK then (d, QIODevice_write device (snd finished))
         else (d\<lparr>d_wallpaperWriterError := EncoderError,
                 d_errorString := avifResultToString c (fst finished)\<rparr>, device))"

definition setMetaData ::
  "KDynamicWallpaperWriterPrivate \<Rightarrow> KDynamicWallpaperMetaData list \<Rightarrow> KDynamicWallpaperWriterPrivate" where
  "setMetaData d metaData' = d\<lparr>d_metaData := metaData'\<rparr>"

definition metaData :: "KDynamicWallpaperWriterPrivate \<Rightarrow> KDynamicWallpaperMetaData list" where
  "metaData d = d_metaData d"

definition setImages ::
  "'e collaborators \<Rightarrow> KDynamicWallpaperWriterPrivate \<Rightarrow> QImage list \<Rightarrow> KDynamicWallpaperWriterPrivate" where
  "setImages c d images' =
     (let tmpImages = foldl (\<lambda>tmpImages img.
                          tmpImages @ [convertToFormat c img Format_RGB888]) [] images'
      in d\<lparr>d_images := tmpImages\<rparr>)"

definition images :: "KDynamicWallpaperWriterPrivate \<Rightarrow> QImage list" where
  "images d = d_images d"

text \<open>\<^verbatim>\<open>flush(QIODevice *device)\<close>: the result, the writer and the device after the
  call.\<close>

definition flush ::
  "'e collaborators \<Rightarrow> KDynamicWallpaperWriterPrivate \<Rightarrow> QIODevice \<Rightarrow>
     bool \<times> KDynamicWallpaperWriterPrivate \<times> QIODevice" where
  "flush c d device =
     (if isOpen device then
        (if \<not> (dev_openMode device AND WriteOnly \<noteq> 0)
         then (False, d\<lparr>d_wallpaperWriterError := DeviceError,
                        d_errorString := ''The device is not open for writing''\<rparr>, device)
         else (let r = KDynamicWallpaperWriterPrivate_flush c d device in (True, fst r, snd r)))
      else
        (let opened = QIODevice_open device WriteOnly
         in if \<not> fst opened
            then (False, d\<lparr>d_wallpaperWriterError := DeviceError,
                           d_errorString := dev_errorString (snd opened)\<rparr>, snd opened)
            else (let r = KDynamicWallpaperWriterPrivate_flush c d (snd opened)
                  in (True, fst r, snd r))))"

text \<open>\<^verbatim>\<open>flush(const QString &fileName)\<close>: the result, the writer and the file system
  after the call. A file opened for writing is created or truncated, and holds what was
  written when the \<^verbatim>\<open>QFile\<close> goes out of scope.\<close>

definition flush_fileName ::
  "'e collaborators \<Rightarrow> KDynamicWallpaperWriterPrivate \<Rightarrow> FileSystem \<Rightarrow> string \<Rightarrow>
     bool \<times> KDynamicWallpaperWriterPrivate \<times> FileSystem" where
  "flush_fileName c d fs fileName =
     (let file = QFile fs fileName;
          opened = QIODevice_open file WriteOnly
      in if \<not> fst opened
         then (False, d\<lparr>d_wallpaperWriterError := DeviceError,
                        d_errorString := dev_errorString (snd opened)\<rparr>, fs)
         else (let r = KDynamicWallpaperWriterPrivate_flush c d (snd opened)
               in (True, fst r, fs\<lparr>fs_files := (fs_files fs)(fileName \<mapsto> dev_bytes (snd r))\<rparr>)))"

definition error :: "KDynamicWallpaperWriterPrivate \<Rightarrow> WallpaperWriterError" where
  "error d = d_wallpaperWriterError d"

definition errorString :: "KDynamicWallpaperWriterPrivate \<Rightarrow> string" where
  "errorString d = (if d_wallpaperWriterError d = NoError then ''No error'' else d_errorString d)"

definition canWrite :: "QIODevice \<Rightarrow> bool" where
  "canWrite device = isWritable device"

definition canWrite_fileName :: "FileSystem \<Rightarrow> string \<Rightarrow> bool" where
  "canWrite_fileName fs fileName = (let file = QFile fs fileName in isWritable file)"

subsection \<open>Notions used to state the properties\<close>

text \<open>The frame that \<^const>\<open>flushImages\<close> builds from one stored image, and the result
  of its conversion to YUV planes.\<close>

definition convertedFrame :: "'e collaborators \<Rightarrow> string \<Rightarrow> QImage \<Rightarrow> avifResult \<times> avifImage" where
  "convertedFrame c xmp img =
     avifImageRGBToYUV c
       (avifImageSetMetadataXMP
          (avifImageCreate (img_width img) (img_height img) 8 AVIF_PIXEL_FORMAT_YUV444) xmp)
       ((avifRGBImageSetDefaults
           (avifImageSetMetadataXMP
              (avifImageCreate (img_width img) (img_height img) 8 AVIF_PIXEL_FORMAT_YUV444) xmp))
        \<lparr>rgb_format := AVIF_RGB_FORMAT_RGB, rgb_depth := 8,
          rgb_rowBytes := img_bytesPerLine img, rgb_pixels := img_bits img\<rparr>)"

text \<open>The frames of the images whose conversion succeeds, in the order of the images.\<close>

definition convertibleFrames :: "'e collaborators \<Rightarrow> string \<Rightarrow> QImage list \<Rightarrow> avifImage list" where
  "convertibleFrames c xmp imgs =
     map (\<lambda>img. snd (convertedFrame c xmp img))
       (filter (\<lambda>img. fst (convertedFrame c xmp img) = AVIF_RESULT_OK) imgs)"

text \<open>The encoder after a frame has been handed to it, whatever the result.\<close>

definition handOver :: "'e collaborators \<Rightarrow> 'e \<Rightarrow> avifImage \<Rightarrow> 'e" where
  "handOver c encoder avif = snd (avifEncoderAddImage c encoder avif 0 AVIF_ADD_IMAGE_FLAG_NONE)"

text \<open>What the finalize step of a flush of the writer returns: the result code and the
  container bytes.\<close>

definition finalized :: "'e collaborators \<Rightarrow> KDynamicWallpaperWriterPrivate \<Rightarrow> avifResult \<times> string" where
  "finalized c d =
     avifEncoderFinish c
       (fst (flushImages c (serializeMetaData c (d_metaData d)) (d_images d)
          (avifEncoder_maxThreads_update c (avifEncoderCreate c) (idealThreadCount c)) []))"

subsection \<open>Example collaborators and inputs\<close>

text \<open>A small stand-in for the collaborators, on which the writer can be run: the
  encoder state is the list of frames it has accepted; an image taller than 2 pixels
  fails the conversion, a frame wider than 4 pixels is refused by the encoder, and an encoder
  without frames fails to finish. The JSON text covers objects with boolean values.\<close>

fun commaSeparated :: "string list \<Rightarrow> string" where
  "commaSeparated [] = []"
| "commaSeparated [s] = s"
| "commaSeparated (s # t # ss) = s @ '','' @ commaSeparated (t # ss)"

definition exampleMember :: "string \<times> QJsonValue \<Rightarrow> string" where
  "exampleMember m =
     CHR 0x22 # fst m @ [CHR 0x22] @ '':'' @
     (case snd m of Bool b \<Rightarrow> (if b then ''true'' else ''false'') | _ \<Rightarrow> ''null'')"

definition exampleObject :: "QJsonValue \<Rightarrow> string" where
  "exampleObject v =
     (case v of Object ms \<Rightarrow> ''{'' @ commaSeparated (map exampleMember ms) @ ''}''
      | _ \<Rightarrow> ''null'')"

definition exampleCollaborators :: "avifImage list collaborators" where
  "exampleCollaborators =
     \<lparr>templateFile = ''<x:xmpmeta>base64</x:xmpmeta>'',
      toJson_Compact = (\<lambda>array. ''['' @ commaSeparated (map exampleObject array) @ '']''),
      pixelConversion = (\<lambda>img format.
        (3 * img_width img, replicate (nat (3 * img_width img * img_height img)) (CHR 0x7F))),
      idealThreadCount = 4,
      avifEncoderCreate = [],
      avifEncoder_maxThreads_update = (\<lambda>encoder n. encoder),
      avifImageRGBToYUV = (\<lambda>avif rgb.
        if 2 < avif_height avif then (1, avif)
        else (AVIF_RESULT_OK, avif\<lparr>avif_yuvPlanes := rgb_pixels rgb\<rparr>)),
      avifEncoderAddImage = (\<lambda>encoder avif duration flag.
        if 4 < avif_width avif then (2, encoder) else (AVIF_RESULT_OK, encoder @ [avif])),
      avifEncoderFinish = (\<lambda>encoder.
        if encoder = [] then (3, []) else (AVIF_RESULT_OK, ''avif'' @ concat (map avif_yuvPlanes encoder))),
      avifResultToString = (\<lambda>r. if r = AVIF_RESULT_OK then ''OK'' else ''Unknown Error'')\<rparr>"

definition exampleImage :: "int \<Rightarrow> int \<Rightarrow> QImage" where
  "exampleImage w h =
     \<lparr>img_format = Format_ARGB32, img_width = w, img_height = h, img_bytesPerLine = 4 * w,
      img_bits = replicate (nat (4 * w * h)) (CHR 0x7F)\<rparr>"

definition readOnlyDevice :: QIODevice where
  "readOnlyDevice =
     \<lparr>dev_openMode = ReadOnly, dev_errorString = ''Unknown error'', dev_bytes = [],
      dev_openable = True, dev_openError = []\<rparr>"

definition closedDevice :: QIODevice where
  "closedDevice =
     \<lparr>dev_openMode = NotOpen, dev_errorString = ''Unknown error'', dev_bytes = [],
      dev_openable = True, dev_openError = []\<rparr>"

definition exampleFileSystem :: FileSystem where
  "exampleFileSystem =
     \<lparr>fs_files = Map.empty, fs_openError = [''/proc/wallpaper.avif'' \<mapsto> ''Permission denied'']\<rparr>"

text \<open>The writer after a flush to the read-only device has failed.\<close>

definition afterFailedFlush :: KDynamicWallpaperWriterPrivate where
  "afterFailedFlush =
     fst (snd (flush exampleCollaborators
       (setImages exampleCollaborators KDynamicWallpaperWriterPrivate_new [exampleImage 2 1])
       readOnlyDevice))"

text \<open>Three stored images: the encoder refuses the first, the conversion of the second
  fails, the third is encoded.\<close>

definition exampleFrames :: "QImage list" where
  "exampleFrames =
     images (setImages exampleCollaborators KDynamicWallpaperWriterPrivate_new
       [exampleImage 5 1, exampleImage 1 3, exampleImage 1 1])"

section \<open>Properties of the metadata record\<close>

lemma fields_callSetter: "fields_of (callSetter md c) = fields_of md OR flagOf c"
  by (cases c) (simp_all add: fields_of_def setCrossFadeMode_def setTime_def
      setSolarElevation_def setSolarAzimuth_def setIndex_def)

lemma fields_foldl_callSetter:
  "fields_of (foldl callSetter md calls) = fields_of md OR foldr (OR) (map flagOf calls) 0"
proof (induction calls arbitrary: md)
  case Nil
  show ?case by simp
next
  case (Cons c calls)
  show ?case by (simp add: Cons.IH fields_callSetter or.assoc)
qed

lemma fields_new: "fields_of KDynamicWallpaperMetaData_new = 0"
  by (simp add: fields_of_def KDynamicWallpaperMetaData_new_def)

lemma isValid_fields: "isValid md \<longleftrightarrow> fields_of md \<noteq> 0"
  by (simp add: isValid_def fields_of_def)

text \<open>C8: for every sequence of calls of the five setters on a metadata record,
  \<^verbatim>\<open>fields()\<close> is the bitwise union of the presence flags of the setters called, and
  \<^verbatim>\<open>isValid()\<close> holds exactly when that union is not zero.\<close>

theorem fields_isValid_of_setter_calls:
  "fields_of (built calls) = unionOf (map flagOf calls) \<and>
   (isValid (built calls) \<longleftrightarrow> unionOf (map flagOf calls) \<noteq> 0)"
  by (simp add: built_def unionOf_def fields_foldl_callSetter isValid_fields fields_new)

theorem fields_isValid_of_setter_calls_witness:
  "fields_of (built [SetTime (1/2), SetIndex 3, SetTime (1/4)]) = TimeField OR IndexField \<and>
   isValid (built [SetTime (1/2), SetIndex 3, SetTime (1/4)]) \<and>
   fields_of (built []) = 0 \<and> \<not> isValid (built [])"
  using fields_isValid_of_setter_calls [of "[SetTime (1/2), SetIndex 3, SetTime (1/4)]"]
    fields_isValid_of_setter_calls [of "[]"]
  by (simp add: unionOf_def TimeField_def IndexField_def)


lemma QJsonObject_value_empty: "QJsonObject_value [] k = Undefined"
  by (simp add: QJsonObject_value_def)

lemma QJsonObject_value_Cons:
  "QJsonObject_value ((k, v) # object) k' = (if k = k' then v else QJsonObject_value object k')"
  by (simp add: QJsonObject_value_def)

lemma isInt_of_int: "isInt (QJsonValue_of_int i)"
  using sint_ge [of i] sint_lt [of i]
  by (simp add: isInt_def QJsonValue_of_int_def del: of_int_sint)

lemma toInt_of_int: "toInt (QJsonValue_of_int i) = i"
proof -
  have "toInt (QJsonValue_of_int i) = word_of_int \<lfloor>toDouble (QJsonValue_of_int i)\<rfloor>"
    using isInt_of_int [of i] by (simp add: toInt_def)
  also have "\<lfloor>toDouble (QJsonValue_of_int i)\<rfloor> = sint i"
    by (simp add: QJsonValue_of_int_def toDouble_def del: of_int_sint)
  finally show ?thesis by simp
qed

lemma toJson_CrossFade:
  "QJsonObject_value (toJson md) ''CrossFade'' =
     (if fields_of md AND CrossFadeField \<noteq> 0 then Bool (md_crossFadeMode md = CrossFade) else Undefined)"
  by (simp add: toJson_def Let_def QJsonObject_value_Cons QJsonObject_value_empty fields_of_def)

lemma toJson_Time:
  "QJsonObject_value (toJson md) ''Time'' =
     (if fields_of md AND TimeField \<noteq> 0 then Double (md_time md) else Undefined)"
  by (simp add: toJson_def Let_def QJsonObject_value_Cons QJsonObject_value_empty fields_of_def)

lemma toJson_SolarElevation:
  "QJsonObject_value (toJson md) ''SolarElevation'' =
     (if fields_of md AND SolarElevationField \<noteq> 0 then Double (md_solarElevation md) else Undefined)"
  by (simp add: toJson_def Let_def QJsonObject_value_Cons QJsonObject_value_empty fields_of_def)

lemma toJson_SolarAzimuth:
  "QJsonObject_value (toJson md) ''SolarAzimuth'' =
     (if fields_of md AND SolarAzimuthField \<noteq> 0 then Double (md_solarAzimuth md) else Undefined)"
  by (simp add: toJson_def Let_def QJsonObject_value_Cons QJsonObject_value_empty fields_of_def)

lemma toJson_Index:
  "QJsonObject_value (toJson md) ''Index'' =
     (if fields_of md AND IndexField \<noteq> 0 then QJsonValue_of_int (md_index md) else Undefined)"
  by (simp add: toJson_def Let_def QJsonObject_value_Cons QJsonObject_value_empty fields_of_def)

lemma and_pow2:
  fixes m :: "32 word"
  shows "m AND 2 ^ n = (if bit m n then 2 ^ n else 0)"
  by (rule bit_word_eqI) (auto simp: bit_simps)

lemma if_flag:
  fixes m f :: "32 word"
  assumes "f = 2 ^ n"
  shows "(if m AND f \<noteq> 0 then f else 0) = m AND f"
  using and_pow2 [of m n] assms by (auto split: if_splits)

lemma if_flags:
  fixes m :: "32 word"
  shows "(if m AND CrossFadeField \<noteq> 0 then CrossFadeField else 0) = m AND CrossFadeField"
    and "(if m AND TimeField \<noteq> 0 then TimeField else 0) = m AND TimeField"
    and "(if m AND SolarElevationField \<noteq> 0 then SolarElevationField else 0) = m AND SolarElevationField"
    and "(if m AND SolarAzimuthField \<noteq> 0 then SolarAzimuthField else 0) = m AND SolarAzimuthField"
    and "(if m AND IndexField \<noteq> 0 then IndexField else 0) = m AND IndexField"
proof -
  show "(if m AND CrossFadeField \<noteq> 0 then CrossFadeField else 0) = m AND CrossFadeField"
    by (rule if_flag [where n = 0]) (simp add: CrossFadeField_def)
  show "(if m AND TimeField \<noteq> 0 then TimeField else 0) = m AND TimeField"
    by (rule if_flag [where n = 1]) (simp add: TimeField_def)
  show "(if m AND SolarElevationField \<noteq> 0 then SolarElevationField else 0) = m AND SolarElevationField"
    by (rule if_flag [where n = 3]) (simp add: SolarElevationField_def)
  show "(if m AND SolarAzimuthField \<noteq> 0 then SolarAzimuthField else 0) = m AND SolarAzimuthField"
    by (rule if_flag [where n = 2]) (simp add: SolarAzimuthField_def)
  show "(if m AND IndexField \<noteq> 0 then IndexField else 0) = m AND IndexField"
    by (rule if_flag [where n = 4]) (simp add: IndexField_def)
qed

lemma present_in_toJson:
  "isBool (QJsonObject_value (toJson md) ''CrossFade'') \<longleftrightarrow> fields_of md AND CrossFadeField \<noteq> 0"
  "isDouble (QJsonObject_value (toJson md) ''Time'') \<longleftrightarrow> fields_of md AND TimeField \<noteq> 0"
  "isDouble (QJsonObject_value (toJson md) ''SolarElevation'') \<longleftrightarrow>
     fields_of md AND SolarElevationField \<noteq> 0"
  "isDouble (QJsonObject_value (toJson md) ''SolarAzimuth'') \<longleftrightarrow>
     fields_of md AND SolarAzimuthField \<noteq> 0"
  "isInt (QJsonObject_value (toJson md) ''Index'') \<longleftrightarrow> fields_of md AND IndexField \<noteq> 0"
  using isInt_of_int [of "md_index md"]
  by (simp_all add: toJson_CrossFade toJson_Time toJson_SolarElevation toJson_SolarAzimuth
      toJson_Index isBool_def isDouble_def) (simp add: isInt_def)

lemma flagOf_allFields: "flagOf c AND allFields = flagOf c"
  by (cases c) (simp_all add: allFields_def CrossFadeField_def TimeField_def
      SolarElevationField_def SolarAzimuthField_def IndexField_def)

lemma unionOf_allFields: "unionOf (map flagOf calls) AND allFields = unionOf (map flagOf calls)"
  by (induction calls) (simp_all add: unionOf_def bit.conj_disj_distrib2 flagOf_allFields)

lemma fields_fromJson:
  "fields_of (fromJson object) =
     (if isBool (QJsonObject_value object ''CrossFade'') then CrossFadeField else 0) OR
     (if isDouble (QJsonObject_value object ''Time'') then TimeField else 0) OR
     (if isDouble (QJsonObject_value object ''SolarElevation'') then SolarElevationField else 0) OR
     (if isDouble (QJsonObject_value object ''SolarAzimuth'') then SolarAzimuthField else 0) OR
     (if isInt (QJsonObject_value object ''Index'') then IndexField else 0)"
  by (simp add: fromJson_def Let_def fields_of_def setCrossFadeMode_def setTime_def
      setSolarElevation_def setSolarAzimuth_def setIndex_def KDynamicWallpaperMetaData_new_def
      or.assoc)

lemma crossFadeMode_fromJson:
  "isBool (QJsonObject_value object ''CrossFade'') \<Longrightarrow>
   crossFadeMode (fromJson object) =
     (if toBool (QJsonObject_value object ''CrossFade'') then CrossFade else NoCrossFade)"
  by (simp add: fromJson_def Let_def crossFadeMode_def setCrossFadeMode_def setTime_def
      setSolarElevation_def setSolarAzimuth_def setIndex_def)

lemma time_fromJson:
  "isDouble (QJsonObject_value object ''Time'') \<Longrightarrow>
   time (fromJson object) = toDouble (QJsonObject_value object ''Time'')"
  by (simp add: fromJson_def Let_def time_def setCrossFadeMode_def setTime_def
      setSolarElevation_def setSolarAzimuth_def setIndex_def)

lemma solarElevation_fromJson:
  "isDouble (QJsonObject_value object ''SolarElevation'') \<Longrightarrow>
   solarElevation (fromJson object) = toDouble (QJsonObject_value object ''SolarElevation'')"
  by (simp add: fromJson_def Let_def solarElevation_def setCrossFadeMode_def setTime_def
      setSolarElevation_def setSolarAzimuth_def setIndex_def)

lemma solarAzimuth_fromJson:
  "isDouble (QJsonObject_value object ''SolarAzimuth'') \<Longrightarrow>
   solarAzimuth (fromJson object) = toDouble (QJsonObject_value object ''SolarAzimuth'')"
  by (simp add: fromJson_def Let_def solarAzimuth_def setCrossFadeMode_def setTime_def
      setSolarElevation_def setSolarAzimuth_def setIndex_def)

lemma index_fromJson:
  "isInt (QJsonObject_value object ''Index'') \<Longrightarrow>
   index (fromJson object) = toInt (QJsonObject_value object ''Index'')"
  by (simp add: fromJson_def Let_def index_def setCrossFadeMode_def setTime_def
      setSolarElevation_def setSolarAzimuth_def setIndex_def)

lemma fields_fromJson_toJson:
  "fields_of (fromJson (toJson md)) = fields_of md AND allFields"
proof -
  have "fields_of (fromJson (toJson md)) =
      (fields_of md AND CrossFadeField) OR (fields_of md AND TimeField) OR
      (fields_of md AND SolarElevationField) OR (fields_of md AND SolarAzimuthField) OR
      (fields_of md AND IndexField)"
    unfolding fields_fromJson present_in_toJson if_flags ..
  then show ?thesis
    by (simp add: allFields_def bit.conj_disj_distrib)
qed

text \<open>C2: for every record built by calls of the five setters (none included),
  \<^verbatim>\<open>fromJson(toJson(record))\<close> has the presence mask of the record and, for every
  present field, the value of the record.\<close>

theorem fromJson_toJson_round_trip:
  "fields_of (fromJson (toJson (built calls))) = fields_of (built calls) \<and>
   (fields_of (built calls) AND CrossFadeField \<noteq> 0 \<longrightarrow>
      crossFadeMode (fromJson (toJson (built calls))) = crossFadeMode (built calls)) \<and>
   (fields_of (built calls) AND TimeField \<noteq> 0 \<longrightarrow>
      time (fromJson (toJson (built calls))) = time (built calls)) \<and>
   (fields_of (built calls) AND SolarElevationField \<noteq> 0 \<longrightarrow>
      solarElevation (fromJson (toJson (built calls))) = solarElevation (built calls)) \<and>
   (fields_of (built calls) AND SolarAzimuthField \<noteq> 0 \<longrightarrow>
      solarAzimuth (fromJson (toJson (built calls))) = solarAzimuth (built calls)) \<and>
   (fields_of (built calls) AND IndexField \<noteq> 0 \<longrightarrow>
      index (fromJson (toJson (built calls))) = index (built calls))"
proof -
  define md where "md = built calls"
  have "fields_of md = unionOf (map flagOf calls)"
    by (simp add: md_def built_def unionOf_def fields_foldl_callSetter fields_new)
  then have mask: "fields_of (fromJson (toJson md)) = fields_of md"
    by (simp add: fields_fromJson_toJson unionOf_allFields)
  have cf: "crossFadeMode (fromJson (toJson md)) = crossFadeMode md"
    if "fields_of md AND CrossFadeField \<noteq> 0"
  proof -
    from that have "isBool (QJsonObject_value (toJson md) ''CrossFade'')"
      by (simp add: present_in_toJson)
    then have "crossFadeMode (fromJson (toJson md)) =
        (if toBool (QJsonObject_value (toJson md) ''CrossFade'') then CrossFade else NoCrossFade)"
      by (rule crossFadeMode_fromJson)
    also have "\<dots> = crossFadeMode md"
      using that by (cases "md_crossFadeMode md")
        (simp_all add: toJson_CrossFade toBool_def crossFadeMode_def)
    finally show ?thesis .
  qed
  have t: "time (fromJson (toJson md)) = time md" if "fields_of md AND TimeField \<noteq> 0"
    using that time_fromJson [of "toJson md"]
    by (simp add: toJson_Time toDouble_def isDouble_def time_def)
  have e: "solarElevation (fromJson (toJson md)) = solarElevation md"
    if "fields_of md AND SolarElevationField \<noteq> 0"
    using that solarElevation_fromJson [of "toJson md"]
    by (simp add: toJson_SolarElevation toDouble_def isDouble_def solarElevation_def)
  have a: "solarAzimuth (fromJson (toJson md)) = solarAzimuth md"
    if "fields_of md AND SolarAzimuthField \<noteq> 0"
    using that solarAzimuth_fromJson [of "toJson md"]
    by (simp add: toJson_SolarAzimuth toDouble_def isDouble_def solarAzimuth_def)
  have i: "index (fromJson (toJson md)) = index md" if "fields_of md AND IndexField \<noteq> 0"
    using that index_fromJson [of "toJson md"]
    by (simp add: toJson_Index toInt_of_int isInt_of_int index_def)
  from mask cf t e a i show ?thesis
    unfolding md_def by blast
qed

theorem fromJson_toJson_round_trip_witness:
  "fields_of (built [SetTime (1/2), SetIndex (- 3), SetCrossFadeMode CrossFade, SetTime (1/4)])
     AND TimeField \<noteq> 0 \<and>
   fields_of (fromJson (toJson (built [SetTime (1/2), SetIndex (- 3), SetCrossFadeMode CrossFade, SetTime (1/4)])))
     = CrossFadeField OR TimeField OR IndexField \<and>
   crossFadeMode (fromJson (toJson (built [SetTime (1/2), SetIndex (- 3), SetCrossFadeMode CrossFade, SetTime (1/4)])))
     = CrossFade \<and>
   time (fromJson (toJson (built [SetTime (1/2), SetIndex (- 3), SetCrossFadeMode CrossFade, SetTime (1/4)])))
     = 1/4 \<and>
   index (fromJson (toJson (built [SetTime (1/2), SetIndex (- 3), SetCrossFadeMode CrossFade, SetTime (1/4)])))
     = - 3 \<and>
   toJson (built []) = [] \<and> fields_of (fromJson (toJson (built []))) = 0"
  using fromJson_toJson_round_trip [of "[SetTime (1/2), SetIndex (- 3), SetCrossFadeMode CrossFade, SetTime (1/4)]"]
    fromJson_toJson_round_trip [of "[]"]
  by (simp add: built_def fields_of_def crossFadeMode_def time_def index_def
      setCrossFadeMode_def setTime_def setIndex_def KDynamicWallpaperMetaData_new_def
      CrossFadeField_def TimeField_def IndexField_def SolarElevationField_def
      SolarAzimuthField_def toJson_def)

section \<open>Properties of the metadata block\<close>

lemma foldl_append_map: "foldl (\<lambda>acc x. acc @ [f x]) acc xs = acc @ map f xs"
  by (induction xs arbitrary: acc) simp_all

lemma replace_no_occurrence:
  "bef \<noteq> [] \<Longrightarrow> (\<forall>i. \<not> prefix bef (drop i xs)) \<Longrightarrow> QByteArray_replace xs bef aft = xs"
proof (induction xs)
  case Nil
  then show ?case by simp
next
  case (Cons x xs)
  from Cons.prems(2) have "\<not> prefix bef (drop 0 (x # xs))" by blast
  then have no: "\<not> prefix bef (x # xs)" by simp
  have "\<not> prefix bef (drop i xs)" for i
    using Cons.prems(2) [rule_format, of "Suc i"] by simp
  with Cons.IH Cons.prems(1) have "QByteArray_replace xs bef aft = xs" by blast
  with no Cons.prems(1) show ?case by simp
qed

lemma replace_skip:
  "bef \<noteq> [] \<Longrightarrow> (\<forall>i<n. \<not> prefix bef (drop i xs)) \<Longrightarrow>
   QByteArray_replace xs bef aft = take n xs @ QByteArray_replace (drop n xs) bef aft"
proof (induction xs arbitrary: n)
  case Nil
  then show ?case by simp
next
  case (Cons x xs)
  show ?case
  proof (cases n)
    case 0
    then show ?thesis by simp
  next
    case (Suc k)
    with Cons.prems(2) have "\<not> prefix bef (drop 0 (x # xs))" by blast
    then have no: "\<not> prefix bef (x # xs)" by simp
    have "\<forall>i<k. \<not> prefix bef (drop i xs)"
    proof (intro allI impI)
      fix i assume "i < k"
      with Suc have "Suc i < n" by simp
      with Cons.prems(2) have "\<not> prefix bef (drop (Suc i) (x # xs))" by blast
      then show "\<not> prefix bef (drop i xs)" by simp
    qed
    with Cons.IH [of k] Cons.prems(1)
    have "QByteArray_replace xs bef aft = take k xs @ QByteArray_replace (drop k xs) bef aft"
      by blast
    with no Cons.prems(1) Suc show ?thesis by simp
  qed
qed

lemma replace_at_occurrence:
  "bef \<noteq> [] \<Longrightarrow> prefix bef xs \<Longrightarrow>
   QByteArray_replace xs bef aft = aft @ QByteArray_replace (drop (length bef) xs) bef aft"
  by (cases xs) auto

lemma set_occurrences:
  "i \<in> set (occurrences bef xs) \<longleftrightarrow> i \<le> length xs \<and> prefix bef (drop i xs)"
  by (auto simp: occurrences_def simp del: upt_Suc)

lemma prefix_drop_beyond:
  assumes "bef \<noteq> []" and "prefix bef (drop i xs)"
  shows "i < length xs"
proof (rule ccontr)
  assume "\<not> i < length xs"
  then have "drop i xs = []" by simp
  with assms(2) have "bef = []" by simp
  with assms(1) show False by contradiction
qed

lemma replace_single_occurrence:
  assumes "bef \<noteq> []" and "occurrences bef xs = [n]"
  shows "QByteArray_replace xs bef aft = take n xs @ aft @ drop (n + length bef) xs"
proof -
  have occ: "prefix bef (drop i xs) \<longleftrightarrow> i = n" for i
  proof
    assume p: "prefix bef (drop i xs)"
    with assms(1) have "i < length xs" by (rule prefix_drop_beyond)
    with p have "i \<in> set (occurrences bef xs)" by (simp add: set_occurrences)
    with assms(2) show "i = n" by simp
  next
    assume "i = n"
    moreover have "n \<in> set (occurrences bef xs)" using assms(2) by simp
    ultimately show "prefix bef (drop i xs)" by (simp add: set_occurrences)
  qed
  have "\<forall>i<n. \<not> prefix bef (drop i xs)" using occ by auto
  with assms(1) have
    "QByteArray_replace xs bef aft = take n xs @ QByteArray_replace (drop n xs) bef aft"
    by (rule replace_skip)
  also have "QByteArray_replace (drop n xs) bef aft =
      aft @ QByteArray_replace (drop (length bef) (drop n xs)) bef aft"
    using assms(1) occ [of n] by (simp add: replace_at_occurrence)
  also have "QByteArray_replace (drop (length bef) (drop n xs)) bef aft =
      drop (length bef) (drop n xs)"
  proof (rule replace_no_occurrence [OF assms(1)], rule allI)
    fix i
    have "drop i (drop (length bef) (drop n xs)) = drop (i + length bef + n) xs"
      by (simp add: add.commute add.left_commute)
    moreover have "i + length bef + n \<noteq> n" using assms(1) by simp
    ultimately show "\<not> prefix bef (drop i (drop (length bef) (drop n xs)))"
      using occ [of "i + length bef + n"] by simp
  qed
  finally show ?thesis by (simp add: add.commute)
qed

text \<open>C1: for every metadata list, the metadata block is the template in which the one
  occurrence of the placeholder is replaced by the base64 text of the compact JSON array
  of \<^verbatim>\<open>toJson()\<close> of every record, in list order and without filtering; the bytes
  before and after the placeholder are those of the template.\<close>

theorem serializeMetaData_substitutes_payload:
  assumes "occurrences ''base64'' (templateFile c) = [n]"
  shows "serializeMetaData c metaData' =
           take n (templateFile c) @
           toBase64 (toJson_Compact c (map (\<lambda>md. Object (toJson md)) metaData')) @
           drop (n + 6) (templateFile c)"
proof -
  have "serializeMetaData c metaData' =
      QByteArray_replace (templateFile c) ''base64''
        (toBase64 (toJson_Compact c (map (\<lambda>md. Object (toJson md)) metaData')))"
    by (simp add: serializeMetaData_def foldl_append_map)
  also have "\<dots> = take n (templateFile c) @
      toBase64 (toJson_Compact c (map (\<lambda>md. Object (toJson md)) metaData')) @
      drop (n + length ''base64'') (templateFile c)"
    using assms by (intro replace_single_occurrence) simp_all
  finally show ?thesis by (simp add: eval_nat_numeral)
qed

theorem serializeMetaData_substitutes_payload_witness:
  "occurrences ''base64'' (templateFile exampleCollaborators) = [11] \<and>
   serializeMetaData exampleCollaborators
       [setCrossFadeMode CrossFade KDynamicWallpaperMetaData_new, KDynamicWallpaperMetaData_new] =
     ''<x:xmpmeta>W3siQ3Jvc3NGYWRlIjp0cnVlfSx7fV0=</x:xmpmeta>''"
proof -
  have occ: "occurrences ''base64'' (templateFile exampleCollaborators) = [11]"
    by (simp add: exampleCollaborators_def occurrences_def upt_rec)
  have json: "toJson_Compact exampleCollaborators
      (map (\<lambda>md. Object (toJson md))
         [setCrossFadeMode CrossFade KDynamicWallpaperMetaData_new, KDynamicWallpaperMetaData_new]) =
      [CHR ''['', CHR ''{'', CHR 0x22] @ ''CrossFade'' @ [CHR 0x22] @ '':true},{}]''"
    by (simp add: exampleCollaborators_def exampleObject_def exampleMember_def toJson_def
        setCrossFadeMode_def KDynamicWallpaperMetaData_new_def CrossFadeField_def TimeField_def
        IndexField_def SolarElevationField_def SolarAzimuthField_def)
  have tmpl: "templateFile exampleCollaborators = ''<x:xmpmeta>base64</x:xmpmeta>''"
    by (simp add: exampleCollaborators_def)
  have b64: "toBase64 ([CHR ''['', CHR ''{'', CHR 0x22] @ ''CrossFade'' @ [CHR 0x22] @ '':true},{}]'') =
      ''W3siQ3Jvc3NGYWRlIjp0cnVlfSx7fV0=''"
    by (simp add: base64Char_def base64Alphabet_def)
  have "serializeMetaData exampleCollaborators
      [setCrossFadeMode CrossFade KDynamicWallpaperMetaData_new, KDynamicWallpaperMetaData_new] =
      take 11 (templateFile exampleCollaborators) @
      toBase64 (toJson_Compact exampleCollaborators
        (map (\<lambda>md. Object (toJson md))
           [setCrossFadeMode CrossFade KDynamicWallpaperMetaData_new,
            KDynamicWallpaperMetaData_new])) @
      drop (11 + 6) (templateFile exampleCollaborators)"
    by (rule serializeMetaData_substitutes_payload [OF occ])
  also have "\<dots> = ''<x:xmpmeta>W3siQ3Jvc3NGYWRlIjp0cnVlfSx7fV0=</x:xmpmeta>''"
    unfolding json b64 tmpl by simp
  finally show ?thesis using occ by simp
qed

section \<open>Properties of the writer\<close>

lemma private_flush_finalized:
  "KDynamicWallpaperWriterPrivate_flush c d device =
     (if fst (finalized c d) = AVIF_RESULT_OK
      then (d, QIODevice_write device (snd (finalized c d)))
      else (d\<lparr>d_wallpaperWriterError := EncoderError,
              d_errorString := avifResultToString c (fst (finalized c d))\<rparr>, device))"
  by (simp add: KDynamicWallpaperWriterPrivate_flush_def finalized_def Let_def)

lemma flush_writable:
  "isOpen device \<Longrightarrow> isWritable device \<Longrightarrow>
   flush c d device =
     (True, fst (KDynamicWallpaperWriterPrivate_flush c d device),
      snd (KDynamicWallpaperWriterPrivate_flush c d device))"
  by (simp add: flush_def isWritable_def Let_def)

lemma flush_closed_openable:
  "\<not> isOpen device \<Longrightarrow> dev_openable device \<Longrightarrow>
   flush c d device =
     (True, fst (KDynamicWallpaperWriterPrivate_flush c d (device\<lparr>dev_openMode := WriteOnly\<rparr>)),
      snd (KDynamicWallpaperWriterPrivate_flush c d (device\<lparr>dev_openMode := WriteOnly\<rparr>)))"
  by (simp add: flush_def QIODevice_open_def Let_def)

lemma flush_fileName_openable:
  "fs_openError fs fileName = None \<Longrightarrow>
   flush_fileName c d fs fileName =
     (True,
      fst (KDynamicWallpaperWriterPrivate_flush c d ((QFile fs fileName)\<lparr>dev_openMode := WriteOnly\<rparr>)),
      fs\<lparr>fs_files := (fs_files fs)(fileName \<mapsto>
           dev_bytes (snd (KDynamicWallpaperWriterPrivate_flush c d
             ((QFile fs fileName)\<lparr>dev_openMode := WriteOnly\<rparr>))))\<rparr>)"
  by (simp add: flush_fileName_def QIODevice_open_def Let_def QFile_def)

text \<open>C3 (as amended): for every writer state, \<^verbatim>\<open>flush\<close> on a device that is open but
  not open for writing returns false, sets the error kind to \<^verbatim>\<open>DeviceError\<close> with the
  message \<^verbatim>\<open>The device is not open for writing\<close> (capital T, as the source spells it),
  and leaves the device as it was: no byte is written.\<close>

theorem flush_not_open_for_writing:
  assumes "isOpen device" and "\<not> isWritable device"
  shows "\<not> fst (flush c d device) \<and>
         error (fst (snd (flush c d device))) = DeviceError \<and>
         errorString (fst (snd (flush c d device))) = ''The device is not open for writing'' \<and>
         snd (snd (flush c d device)) = device"
  using assms by (simp add: flush_def isWritable_def error_def errorString_def)

theorem flush_not_open_for_writing_witness:
  "isOpen readOnlyDevice \<and> \<not> isWritable readOnlyDevice \<and>
   \<not> fst (flush exampleCollaborators KDynamicWallpaperWriterPrivate_new readOnlyDevice) \<and>
   error (fst (snd (flush exampleCollaborators KDynamicWallpaperWriterPrivate_new readOnlyDevice)))
     = DeviceError \<and>
   dev_bytes (snd (snd (flush exampleCollaborators KDynamicWallpaperWriterPrivate_new readOnlyDevice)))
     = []"
proof -
  have o: "isOpen readOnlyDevice"
    by (simp add: isOpen_def readOnlyDevice_def ReadOnly_def NotOpen_def)
  have w: "\<not> isWritable readOnlyDevice"
    by (simp add: isWritable_def readOnlyDevice_def ReadOnly_def WriteOnly_def)
  from flush_not_open_for_writing [OF o w, of exampleCollaborators KDynamicWallpaperWriterPrivate_new]
  have "\<not> fst (flush exampleCollaborators KDynamicWallpaperWriterPrivate_new readOnlyDevice)"
    and "error (fst (snd (flush exampleCollaborators KDynamicWallpaperWriterPrivate_new readOnlyDevice)))
     = DeviceError"
    and "snd (snd (flush exampleCollaborators KDynamicWallpaperWriterPrivate_new readOnlyDevice))
      = readOnlyDevice"
    by simp_all
  with o w show ?thesis by (simp add: readOnlyDevice_def)
qed

text \<open>The message is not the all-lower-case text: the claim as worded fails on a
  read-only device.\<close>

theorem flush_not_open_for_writing_message_counterexample:
  "isOpen readOnlyDevice \<and> \<not> isWritable readOnlyDevice \<and>
   errorString (fst (snd (flush exampleCollaborators KDynamicWallpaperWriterPrivate_new readOnlyDevice)))
     \<noteq> ''the device is not open for writing''"
  by (simp add: flush_def isOpen_def isWritable_def readOnlyDevice_def ReadOnly_def
      WriteOnly_def NotOpen_def errorString_def)

text \<open>C4: for every flush whose destination is open for writing (a writable device, a
  closed device that opens, a path that opens), \<^verbatim>\<open>flush\<close> returns true; when the
  finalize step fails, the error kind is \<^verbatim>\<open>EncoderError\<close>, the message is the
  encoder's text for the result, and no byte is written; when it succeeds, the
  encoder's output is written as it is.\<close>

theorem flush_finalize_outcome:
  "(isOpen device \<and> isWritable device \<or> \<not> isOpen device \<and> dev_openable device \<longrightarrow>
      fst (flush c d device) \<and>
      (fst (finalized c d) \<noteq> AVIF_RESULT_OK \<longrightarrow>
         error (fst (snd (flush c d device))) = EncoderError \<and>
         errorString (fst (snd (flush c d device))) = avifResultToString c (fst (finalized c d)) \<and>
         dev_bytes (snd (snd (flush c d device))) = dev_bytes device) \<and>
      (fst (finalized c d) = AVIF_RESULT_OK \<longrightarrow>
         dev_bytes (snd (snd (flush c d device))) = dev_bytes device @ snd (finalized c d))) \<and>
   (fs_openError fs fileName = None \<longrightarrow>
      fst (flush_fileName c d fs fileName) \<and>
      (fst (finalized c d) \<noteq> AVIF_RESULT_OK \<longrightarrow>
         error (fst (snd (flush_fileName c d fs fileName))) = EncoderError \<and>
         errorString (fst (snd (flush_fileName c d fs fileName))) =
           avifResultToString c (fst (finalized c d)) \<and>
         fs_files (snd (snd (flush_fileName c d fs fileName))) fileName = Some []) \<and>
      (fst (finalized c d) = AVIF_RESULT_OK \<longrightarrow>
         fs_files (snd (snd (flush_fileName c d fs fileName))) fileName =
           Some (snd (finalized c d))))"
proof (intro conjI impI)
  assume "isOpen device \<and> isWritable device \<or> \<not> isOpen device \<and> dev_openable device"
  then consider "isOpen device" "isWritable device" | "\<not> isOpen device" "dev_openable device"
    by blast
  note opened = this
  from opened show "fst (flush c d device)"
    by cases (simp_all add: flush_writable flush_closed_openable)
  {
    assume failed: "fst (finalized c d) \<noteq> AVIF_RESULT_OK"
    from opened failed show "error (fst (snd (flush c d device))) = EncoderError"
      by cases (simp_all add: flush_writable flush_closed_openable private_flush_finalized error_def)
    from opened failed show "errorString (fst (snd (flush c d device))) =
        avifResultToString c (fst (finalized c d))"
      by cases (simp_all add: flush_writable flush_closed_openable private_flush_finalized
          errorString_def)
    from opened failed show "dev_bytes (snd (snd (flush c d device))) = dev_bytes device"
      by cases (simp_all add: flush_writable flush_closed_openable private_flush_finalized)
  }
  {
    assume ok: "fst (finalized c d) = AVIF_RESULT_OK"
    from opened ok show "dev_bytes (snd (snd (flush c d device))) =
        dev_bytes device @ snd (finalized c d)"
      by cases (simp_all add: flush_writable flush_closed_openable private_flush_finalized
          QIODevice_write_def)
  }
next
  assume openable: "fs_openError fs fileName = None"
  then show "fst (flush_fileName c d fs fileName)"
    by (simp add: flush_fileName_openable)
  {
    assume failed: "fst (finalized c d) \<noteq> AVIF_RESULT_OK"
    from openable failed show "error (fst (snd (flush_fileName c d fs fileName))) = EncoderError"
      by (simp add: flush_fileName_openable private_flush_finalized error_def)
    from openable failed show "errorString (fst (snd (flush_fileName c d fs fileName))) =
        avifResultToString c (fst (finalized c d))"
      by (simp add: flush_fileName_openable private_flush_finalized errorString_def)
    from openable failed show "fs_files (snd (snd (flush_fileName c d fs fileName))) fileName = Some []"
      by (simp add: flush_fileName_openable private_flush_finalized QFile_def)
  }
  {
    assume ok: "fst (finalized c d) = AVIF_RESULT_OK"
    from openable ok show "fs_files (snd (snd (flush_fileName c d fs fileName))) fileName =
        Some (snd (finalized c d))"
      by (simp add: flush_fileName_openable private_flush_finalized QFile_def QIODevice_write_def)
  }
qed

lemma exampleWriter_images:
  "setImages exampleCollaborators KDynamicWallpaperWriterPrivate_new [exampleImage 2 1] =
     \<lparr>d_wallpaperWriterError = NoError, d_errorString = [],
      d_images = [\<lparr>img_format = Format_RGB888, img_width = 2, img_height = 1,
                   img_bytesPerLine = 6, img_bits = replicate 6 (CHR 0x7F)\<rparr>],
      d_metaData = []\<rparr>"
  by (simp add: setImages_def KDynamicWallpaperWriterPrivate_new_def convertToFormat_def
      exampleImage_def isNull_def exampleCollaborators_def)

lemma finalized_exampleWriter:
  "finalized exampleCollaborators
     (setImages exampleCollaborators KDynamicWallpaperWriterPrivate_new [exampleImage 2 1]) =
   (AVIF_RESULT_OK, ''avif'' @ replicate 6 (CHR 0x7F))"
  unfolding exampleWriter_images
  by (simp add: finalized_def exampleCollaborators_def avifImageCreate_def
      avifImageSetMetadataXMP_def avifRGBImageSetDefaults_def AVIF_RESULT_OK_def)

lemma finalized_new:
  "finalized exampleCollaborators KDynamicWallpaperWriterPrivate_new = (3, [])"
  by (simp add: finalized_def exampleCollaborators_def KDynamicWallpaperWriterPrivate_new_def)

lemma closedDevice_openable: "\<not> isOpen closedDevice \<and> dev_openable closedDevice"
  by (simp add: isOpen_def closedDevice_def NotOpen_def)

theorem flush_finalize_outcome_witness:
  "\<not> isOpen closedDevice \<and> dev_openable closedDevice \<and>
   fst (finalized exampleCollaborators KDynamicWallpaperWriterPrivate_new) \<noteq> AVIF_RESULT_OK \<and>
   fst (flush exampleCollaborators KDynamicWallpaperWriterPrivate_new closedDevice) \<and>
   error (fst (snd (flush exampleCollaborators KDynamicWallpaperWriterPrivate_new closedDevice)))
     = EncoderError \<and>
   errorString (fst (snd (flush exampleCollaborators KDynamicWallpaperWriterPrivate_new closedDevice)))
     = ''Unknown Error'' \<and>
   dev_bytes (snd (snd (flush exampleCollaborators KDynamicWallpaperWriterPrivate_new closedDevice)))
     = [] \<and>
   fst (finalized exampleCollaborators
     (setImages exampleCollaborators KDynamicWallpaperWriterPrivate_new [exampleImage 2 1]))
     = AVIF_RESULT_OK \<and>
   dev_bytes (snd (snd (flush exampleCollaborators
     (setImages exampleCollaborators KDynamicWallpaperWriterPrivate_new [exampleImage 2 1])
     closedDevice))) = ''avif'' @ replicate 6 (CHR 0x7F) \<and>
   fs_openError exampleFileSystem ''wallpaper.avif'' = None \<and>
   fs_files (snd (snd (flush_fileName exampleCollaborators
     (setImages exampleCollaborators KDynamicWallpaperWriterPrivate_new [exampleImage 2 1])
     exampleFileSystem ''wallpaper.avif''))) ''wallpaper.avif'' = Some (''avif'' @ replicate 6 (CHR 0x7F))"
proof -
  have path: "fs_openError exampleFileSystem ''wallpaper.avif'' = None"
    by (simp add: exampleFileSystem_def)
  have str: "avifResultToString exampleCollaborators 3 = ''Unknown Error''"
    by (simp add: exampleCollaborators_def AVIF_RESULT_OK_def)
  have bytes: "dev_bytes closedDevice = []"
    by (simp add: closedDevice_def)
  show ?thesis
    using closedDevice_openable path
      flush_finalize_outcome [of closedDevice exampleCollaborators
        KDynamicWallpaperWriterPrivate_new exampleFileSystem "''wallpaper.avif''"]
      flush_finalize_outcome [of closedDevice exampleCollaborators
        "setImages exampleCollaborators KDynamicWallpaperWriterPrivate_new [exampleImage 2 1]"
        exampleFileSystem "''wallpaper.avif''"]
    by (simp add: finalized_new finalized_exampleWriter str bytes AVIF_RESULT_OK_def)
qed

lemma afterFailedFlush_eq:
  "afterFailedFlush =
     \<lparr>d_wallpaperWriterError = DeviceError, d_errorString = ''The device is not open for writing'',
      d_images = [\<lparr>img_format = Format_RGB888, img_width = 2, img_height = 1,
                   img_bytesPerLine = 6, img_bits = replicate 6 (CHR 0x7F)\<rparr>],
      d_metaData = []\<rparr>"
  unfolding afterFailedFlush_def exampleWriter_images
  by (simp add: flush_def isOpen_def readOnlyDevice_def ReadOnly_def NotOpen_def WriteOnly_def)

lemma finalized_afterFailedFlush:
  "finalized exampleCollaborators afterFailedFlush =
   (AVIF_RESULT_OK, ''avif'' @ replicate 6 (CHR 0x7F))"
  unfolding afterFailedFlush_eq
  by (simp add: finalized_def exampleCollaborators_def avifImageCreate_def
      avifImageSetMetadataXMP_def avifRGBImageSetDefaults_def AVIF_RESULT_OK_def)

text \<open>C6 (as amended): a flush that completes successfully (the destination opens and
  the finalize step succeeds) leaves the error kind and the error string as they were
  before the call: \<^verbatim>\<open>error()\<close> is \<^verbatim>\<open>NoError\<close> after it exactly when it was before
  it. Nothing resets an error recorded by an earlier failed call.\<close>

theorem flush_success_keeps_error:
  "(fst (flush c d device) \<and> fst (finalized c d) = AVIF_RESULT_OK \<longrightarrow>
      error (fst (snd (flush c d device))) = error d \<and>
      errorString (fst (snd (flush c d device))) = errorString d) \<and>
   (fst (flush_fileName c d fs fileName) \<and> fst (finalized c d) = AVIF_RESULT_OK \<longrightarrow>
      error (fst (snd (flush_fileName c d fs fileName))) = error d \<and>
      errorString (fst (snd (flush_fileName c d fs fileName))) = errorString d)"
  by (simp add: flush_def flush_fileName_def private_flush_finalized Let_def error_def
      errorString_def)

theorem flush_success_keeps_error_witness:
  "fst (flush exampleCollaborators afterFailedFlush closedDevice) \<and>
   fst (finalized exampleCollaborators afterFailedFlush) = AVIF_RESULT_OK \<and>
   error afterFailedFlush = DeviceError \<and>
   error (fst (snd (flush exampleCollaborators afterFailedFlush closedDevice))) = DeviceError \<and>
   error (fst (snd (flush exampleCollaborators
     (setImages exampleCollaborators KDynamicWallpaperWriterPrivate_new [exampleImage 2 1])
     closedDevice))) = NoError \<and>
   errorString (fst (snd (flush exampleCollaborators
     (setImages exampleCollaborators KDynamicWallpaperWriterPrivate_new [exampleImage 2 1])
     closedDevice))) = ''No error''"
proof -
  have ok: "fst (flush exampleCollaborators afterFailedFlush closedDevice)"
    using closedDevice_openable by (simp add: flush_closed_openable)
  have ok': "fst (flush exampleCollaborators
     (setImages exampleCollaborators KDynamicWallpaperWriterPrivate_new [exampleImage 2 1])
     closedDevice)"
    using closedDevice_openable by (simp add: flush_closed_openable)
  have e: "error afterFailedFlush = DeviceError"
    by (simp add: afterFailedFlush_eq error_def)
  have e': "error (setImages exampleCollaborators KDynamicWallpaperWriterPrivate_new
      [exampleImage 2 1]) = NoError"
    "errorString (setImages exampleCollaborators KDynamicWallpaperWriterPrivate_new
      [exampleImage 2 1]) = ''No error''"
    by (simp_all add: exampleWriter_images error_def errorString_def)
  show ?thesis
    using ok ok' e e'
      flush_success_keeps_error [of exampleCollaborators afterFailedFlush closedDevice
        exampleFileSystem "''wallpaper.avif''"]
      flush_success_keeps_error [of exampleCollaborators
        "setImages exampleCollaborators KDynamicWallpaperWriterPrivate_new [exampleImage 2 1]"
        closedDevice exampleFileSystem "''wallpaper.avif''"]
    by (simp add: finalized_afterFailedFlush finalized_exampleWriter)
qed

text \<open>A writer whose earlier flush failed on a read-only device still reports
  \<^verbatim>\<open>DeviceError\<close> after a flush that succeeds.\<close>

theorem flush_success_resets_error_counterexample:
  "fst (flush exampleCollaborators afterFailedFlush closedDevice) \<and>
   fst (finalized exampleCollaborators afterFailedFlush) = AVIF_RESULT_OK \<and>
   dev_bytes (snd (snd (flush exampleCollaborators afterFailedFlush closedDevice))) =
     ''avif'' @ replicate 6 (CHR 0x7F) \<and>
   error (fst (snd (flush exampleCollaborators afterFailedFlush closedDevice))) \<noteq> NoError \<and>
   errorString (fst (snd (flush exampleCollaborators afterFailedFlush closedDevice))) \<noteq> ''No error''"
  using closedDevice_openable
  by (simp add: flush_closed_openable private_flush_finalized finalized_afterFailedFlush
      QIODevice_write_def closedDevice_def)
    (simp add: afterFailedFlush_eq error_def errorString_def)

lemma d_images_setImages:
  "d_images (setImages c d imgs) = map (\<lambda>img. convertToFormat c img Format_RGB888) imgs"
  by (simp add: setImages_def foldl_append_map)

text \<open>C10: for every writer state, \<^verbatim>\<open>setMetaData\<close> leaves the stored images, the
  error kind and the error string as they are, and \<^verbatim>\<open>setImages\<close> leaves the stored
  metadata, the error kind and the error string as they are; each replaces only its own
  sequence.\<close>

theorem setters_change_only_their_sequence:
  "images (setMetaData d metaData') = images d \<and>
   error (setMetaData d metaData') = error d \<and>
   errorString (setMetaData d metaData') = errorString d \<and>
   d_errorString (setMetaData d metaData') = d_errorString d \<and>
   metaData (setMetaData d metaData') = metaData' \<and>
   metaData (setImages c d imgs) = metaData d \<and>
   error (setImages c d imgs) = error d \<and>
   errorString (setImages c d imgs) = errorString d \<and>
   d_errorString (setImages c d imgs) = d_errorString d \<and>
   images (setImages c d imgs) = map (\<lambda>img. convertToFormat c img Format_RGB888) imgs"
  by (simp add: setMetaData_def setImages_def images_def metaData_def error_def errorString_def
      foldl_append_map)

theorem setters_change_only_their_sequence_witness:
  "images (setMetaData afterFailedFlush [KDynamicWallpaperMetaData_new]) = images afterFailedFlush \<and>
   error (setMetaData afterFailedFlush [KDynamicWallpaperMetaData_new]) = DeviceError \<and>
   metaData (setMetaData afterFailedFlush [KDynamicWallpaperMetaData_new]) =
     [KDynamicWallpaperMetaData_new] \<and>
   metaData (setImages exampleCollaborators
     (setMetaData afterFailedFlush [KDynamicWallpaperMetaData_new]) []) =
     [KDynamicWallpaperMetaData_new] \<and>
   error (setImages exampleCollaborators afterFailedFlush []) = DeviceError \<and>
   images (setImages exampleCollaborators afterFailedFlush []) = []"
proof -
  have e: "error afterFailedFlush = DeviceError"
    by (simp add: afterFailedFlush_eq error_def)
  show ?thesis
    using e
      setters_change_only_their_sequence [of afterFailedFlush "[KDynamicWallpaperMetaData_new]"
        exampleCollaborators "[]"]
      setters_change_only_their_sequence [of
        "setMetaData afterFailedFlush [KDynamicWallpaperMetaData_new]" "[]"
        exampleCollaborators "[]"]
    by simp
qed

lemma convertToFormat_null: "isNull img \<Longrightarrow> convertToFormat c img format = img"
  by (simp add: convertToFormat_def)

lemma convertToFormat_RGB888:
  "\<not> isNull img \<Longrightarrow>
   img_format (convertToFormat c img Format_RGB888) = Format_RGB888 \<and>
   img_width (convertToFormat c img Format_RGB888) = img_width img \<and>
   img_height (convertToFormat c img Format_RGB888) = img_height img"
  by (simp add: convertToFormat_def)

text \<open>C9 (as amended): for every input image list, \<^verbatim>\<open>setImages\<close> replaces the stored
  sequence by one of the same length; every input image that is not null is stored in
  the \<^verbatim>\<open>RGB888\<close> layout with its width and height, and a null input image is stored as
  it is.\<close>

theorem setImages_converts_each_image:
  "length (images (setImages c d imgs)) = length imgs \<and>
   (\<forall>i<length imgs.
      (\<not> isNull (imgs ! i) \<longrightarrow>
         img_format (images (setImages c d imgs) ! i) = Format_RGB888 \<and>
         img_width (images (setImages c d imgs) ! i) = img_width (imgs ! i) \<and>
         img_height (images (setImages c d imgs) ! i) = img_height (imgs ! i)) \<and>
      (isNull (imgs ! i) \<longrightarrow> images (setImages c d imgs) ! i = imgs ! i))"
  by (simp add: images_def d_images_setImages convertToFormat_null convertToFormat_RGB888)

theorem setImages_converts_each_image_witness:
  "length (images (setImages exampleCollaborators afterFailedFlush
      [exampleImage 2 1, QImage_null])) = 2 \<and>
   \<not> isNull (exampleImage 2 1) \<and>
   img_format (images (setImages exampleCollaborators afterFailedFlush
      [exampleImage 2 1, QImage_null]) ! 0) = Format_RGB888 \<and>
   img_width (images (setImages exampleCollaborators afterFailedFlush
      [exampleImage 2 1, QImage_null]) ! 0) = 2 \<and>
   isNull QImage_null \<and>
   images (setImages exampleCollaborators afterFailedFlush
      [exampleImage 2 1, QImage_null]) ! 1 = QImage_null"
proof -
  have n: "\<not> isNull (exampleImage 2 1)" "isNull QImage_null"
    by (simp_all add: isNull_def exampleImage_def QImage_null_def)
  have w: "img_width (exampleImage 2 1) = 2"
    by (simp add: exampleImage_def)
  from setImages_converts_each_image [of exampleCollaborators afterFailedFlush
      "[exampleImage 2 1, QImage_null]"]
  have len: "length (images (setImages exampleCollaborators afterFailedFlush
      [exampleImage 2 1, QImage_null])) = 2"
    and each: "\<forall>i<2.
      (\<not> isNull ([exampleImage 2 1, QImage_null] ! i) \<longrightarrow>
         img_format (images (setImages exampleCollaborators afterFailedFlush
           [exampleImage 2 1, QImage_null]) ! i) = Format_RGB888 \<and>
         img_width (images (setImages exampleCollaborators afterFailedFlush
           [exampleImage 2 1, QImage_null]) ! i) = img_width ([exampleImage 2 1, QImage_null] ! i) \<and>
         img_height (images (setImages exampleCollaborators afterFailedFlush
           [exampleImage 2 1, QImage_null]) ! i) = img_height ([exampleImage 2 1, QImage_null] ! i)) \<and>
      (isNull ([exampleImage 2 1, QImage_null] ! i) \<longrightarrow>
         images (setImages exampleCollaborators afterFailedFlush
           [exampleImage 2 1, QImage_null]) ! i = [exampleImage 2 1, QImage_null] ! i)"
    by simp_all
  from each [rule_format, of 0] each [rule_format, of 1] len n w
  show ?thesis by simp
qed

text \<open>A null image in the input list stays null: the stored image is not in the
  \<^verbatim>\<open>RGB888\<close> layout.\<close>

theorem setImages_null_image_counterexample:
  "images (setImages exampleCollaborators KDynamicWallpaperWriterPrivate_new [QImage_null]) =
     [QImage_null] \<and>
   img_format (hd (images (setImages exampleCollaborators KDynamicWallpaperWriterPrivate_new
     [QImage_null]))) \<noteq> Format_RGB888"
  by (simp add: images_def setImages_def convertToFormat_def isNull_def QImage_null_def)

lemma canWrite_fileName_False: "\<not> canWrite_fileName fs fileName"
  by (simp add: canWrite_fileName_def QFile_def isWritable_def NotOpen_def)

text \<open>C7: \<^verbatim>\<open>canWrite(fileName)\<close> asks a file object that was never opened whether
  it is writable, so it answers false for every path, also for a path to which
  \<^verbatim>\<open>flush(fileName)\<close> writes a wallpaper.\<close>

theorem canWrite_fileName_writable_path:
  "\<not> canWrite_fileName exampleFileSystem ''wallpaper.avif'' \<and>
   fst (flush_fileName exampleCollaborators
     (setImages exampleCollaborators KDynamicWallpaperWriterPrivate_new [exampleImage 2 1])
     exampleFileSystem ''wallpaper.avif'') \<and>
   fs_files (snd (snd (flush_fileName exampleCollaborators
     (setImages exampleCollaborators KDynamicWallpaperWriterPrivate_new [exampleImage 2 1])
     exampleFileSystem ''wallpaper.avif''))) ''wallpaper.avif'' =
     Some (''avif'' @ replicate 6 (CHR 0x7F))"
proof -
  have path: "fs_openError exampleFileSystem ''wallpaper.avif'' = None"
    by (simp add: exampleFileSystem_def)
  show ?thesis
    using path
    by (simp add: canWrite_fileName_False flush_fileName_openable private_flush_finalized
        finalized_exampleWriter QIODevice_write_def QFile_def)
qed

lemma flushImages_Cons:
  "flushImages c xmp (img # rest) encoder avifImages =
     (if fst (convertedFrame c xmp img) \<noteq> AVIF_RESULT_OK
      then flushImages c xmp rest encoder avifImages
      else if fst (avifEncoderAddImage c encoder (snd (convertedFrame c xmp img)) 0
                AVIF_ADD_IMAGE_FLAG_NONE) \<noteq> AVIF_RESULT_OK
      then flushImages c xmp rest (handOver c encoder (snd (convertedFrame c xmp img))) avifImages
      else flushImages c xmp rest (handOver c encoder (snd (convertedFrame c xmp img)))
             (avifImages @ [snd (convertedFrame c xmp img)]))"
  by (simp add: convertedFrame_def handOver_def Let_def)

lemma flushImages_append:
  "flushImages c xmp (xs @ ys) encoder avifImages =
     flushImages c xmp ys (fst (flushImages c xmp xs encoder avifImages))
       (snd (flushImages c xmp xs encoder avifImages))"
proof (induction xs arbitrary: encoder avifImages)
  case Nil
  show ?case by simp
next
  case (Cons x xs)
  show ?case
    unfolding append_Cons flushImages_Cons by (simp add: Cons.IH)
qed

lemma flushImages_encoder:
  "fst (flushImages c xmp imgs encoder avifImages) =
     foldl (handOver c) encoder (convertibleFrames c xmp imgs)"
proof (induction imgs arbitrary: encoder avifImages)
  case Nil
  show ?case by (simp add: convertibleFrames_def)
next
  case (Cons x xs)
  show ?case
    unfolding flushImages_Cons
    by (simp add: Cons.IH) (simp add: convertibleFrames_def)
qed

lemma flushImages_skip_unconvertible:
  assumes "fst (convertedFrame c xmp img) \<noteq> AVIF_RESULT_OK"
  shows "flushImages c xmp (before' @ img # rest) encoder avifImages =
         flushImages c xmp (before' @ rest) encoder avifImages"
  using assms by (simp add: flushImages_append flushImages_Cons del: flushImages.simps)

lemma flushImages_skip_refused:
  assumes "fst (convertedFrame c xmp img) = AVIF_RESULT_OK"
    and "fst (avifEncoderAddImage c encoder (snd (convertedFrame c xmp img)) 0
           AVIF_ADD_IMAGE_FLAG_NONE) \<noteq> AVIF_RESULT_OK"
  shows "flushImages c xmp (img # rest) encoder avifImages =
         flushImages c xmp rest (handOver c encoder (snd (convertedFrame c xmp img))) avifImages"
  using assms by (simp add: flushImages_Cons del: flushImages.simps)

lemma convertibleFrames_skip:
  "fst (convertedFrame c xmp img) \<noteq> AVIF_RESULT_OK \<Longrightarrow>
   convertibleFrames c xmp (before' @ img # rest) = convertibleFrames c xmp (before' @ rest)"
  by (simp add: convertibleFrames_def)

lemma private_flush_frames:
  "KDynamicWallpaperWriterPrivate_flush c d device =
     (let xmp = serializeMetaData c (d_metaData d);
          encoder = foldl (handOver c)
                      (avifEncoder_maxThreads_update c (avifEncoderCreate c) (idealThreadCount c))
                      (convertibleFrames c xmp (d_images d));
          finished = avifEncoderFinish c encoder
      in if fst finished = AVIF_RESULT_OK then (d, QIODevice_write device (snd finished))
         else (d\<lparr>d_wallpaperWriterError := EncoderError,
                 d_errorString := avifResultToString c (fst finished)\<rparr>, device))"
  by (simp add: private_flush_finalized finalized_def flushImages_encoder Let_def)

lemma private_flush_skip_unconvertible:
  assumes "fst (convertedFrame c (serializeMetaData c (d_metaData d)) img) \<noteq> AVIF_RESULT_OK"
    and "d_images d = before' @ img # rest"
  shows "KDynamicWallpaperWriterPrivate_flush c d device =
     (fst (KDynamicWallpaperWriterPrivate_flush c (d\<lparr>d_images := before' @ rest\<rparr>) device)
        \<lparr>d_images := before' @ img # rest\<rparr>,
      snd (KDynamicWallpaperWriterPrivate_flush c (d\<lparr>d_images := before' @ rest\<rparr>) device))"
proof -
  have "d = d\<lparr>d_images := before' @ img # rest\<rparr>"
    using assms(2) by simp
  then show ?thesis
    using convertibleFrames_skip [OF assms(1), of before' rest]
    by (simp add: private_flush_frames assms(2) Let_def)
qed

text \<open>C5: the private flush hands every stored image whose conversion succeeds to the
  encoder, in input order, and then runs the finalize step, whatever conversions or
  hand-overs have failed; its error kind and string are those before the call unless
  the finalize step fails. A flush of a list with an image whose conversion fails is
  the flush of the list without it. In the loop, a frame whose conversion fails has the
  effect of not being in the list, and a frame the encoder refuses leaves the accepted
  frames as they are while the loop goes on with the images after it.\<close>

theorem frame_failures_discard_only_the_frame:
  "KDynamicWallpaperWriterPrivate_flush c d device =
     (let xmp = serializeMetaData c (d_metaData d);
          encoder = foldl (handOver c)
                      (avifEncoder_maxThreads_update c (avifEncoderCreate c) (idealThreadCount c))
                      (convertibleFrames c xmp (d_images d));
          finished = avifEncoderFinish c encoder
      in if fst finished = AVIF_RESULT_OK then (d, QIODevice_write device (snd finished))
         else (d\<lparr>d_wallpaperWriterError := EncoderError,
                 d_errorString := avifResultToString c (fst finished)\<rparr>, device)) \<and>
   (fst (convertedFrame c (serializeMetaData c (d_metaData d)) img) \<noteq> AVIF_RESULT_OK \<and>
    d_images d = before' @ img # rest \<longrightarrow>
      KDynamicWallpaperWriterPrivate_flush c d device =
        (fst (KDynamicWallpaperWriterPrivate_flush c (d\<lparr>d_images := before' @ rest\<rparr>) device)
           \<lparr>d_images := before' @ img # rest\<rparr>,
         snd (KDynamicWallpaperWriterPrivate_flush c (d\<lparr>d_images := before' @ rest\<rparr>) device))) \<and>
   (fst (convertedFrame c xmp img) \<noteq> AVIF_RESULT_OK \<longrightarrow>
      flushImages c xmp (before' @ img # rest) encoder avifImages =
      flushImages c xmp (before' @ rest) encoder avifImages) \<and>
   (fst (convertedFrame c xmp img) = AVIF_RESULT_OK \<and>
    fst (avifEncoderAddImage c encoder (snd (convertedFrame c xmp img)) 0
           AVIF_ADD_IMAGE_FLAG_NONE) \<noteq> AVIF_RESULT_OK \<longrightarrow>
      flushImages c xmp (img # rest) encoder avifImages =
      flushImages c xmp rest (handOver c encoder (snd (convertedFrame c xmp img))) avifImages) \<and>
   fst (flushImages c xmp imgs encoder avifImages) =
     foldl (handOver c) encoder (convertibleFrames c xmp imgs) \<and>
   (fst (finalized c d) = AVIF_RESULT_OK \<longrightarrow>
      error (fst (KDynamicWallpaperWriterPrivate_flush c d device)) = error d \<and>
      errorString (fst (KDynamicWallpaperWriterPrivate_flush c d device)) = errorString d \<and>
      d_errorString (fst (KDynamicWallpaperWriterPrivate_flush c d device)) = d_errorString d)"
proof (intro conjI impI)
  show "KDynamicWallpaperWriterPrivate_flush c d device =
     (let xmp = serializeMetaData c (d_metaData d);
          encoder = foldl (handOver c)
                      (avifEncoder_maxThreads_update c (avifEncoderCreate c) (idealThreadCount c))
                      (convertibleFrames c xmp (d_images d));
          finished = avifEncoderFinish c encoder
      in if fst finished = AVIF_RESULT_OK then (d, QIODevice_write device (snd finished))
         else (d\<lparr>d_wallpaperWriterError := EncoderError,
                 d_errorString := avifResultToString c (fst finished)\<rparr>, device))"
    by (rule private_flush_frames)
next
  assume "fst (convertedFrame c (serializeMetaData c (d_metaData d)) img) \<noteq> AVIF_RESULT_OK \<and>
    d_images d = before' @ img # rest"
  then show "KDynamicWallpaperWriterPrivate_flush c d device =
        (fst (KDynamicWallpaperWriterPrivate_flush c (d\<lparr>d_images := before' @ rest\<rparr>) device)
           \<lparr>d_images := before' @ img # rest\<rparr>,
         snd (KDynamicWallpaperWriterPrivate_flush c (d\<lparr>d_images := before' @ rest\<rparr>) device))"
    by (simp add: private_flush_skip_unconvertible)
next
  assume "fst (convertedFrame c xmp img) \<noteq> AVIF_RESULT_OK"
  then show "flushImages c xmp (before' @ img # rest) encoder avifImages =
      flushImages c xmp (before' @ rest) encoder avifImages"
    by (rule flushImages_skip_unconvertible)
next
  assume "fst (convertedFrame c xmp img) = AVIF_RESULT_OK \<and>
    fst (avifEncoderAddImage c encoder (snd (convertedFrame c xmp img)) 0
           AVIF_ADD_IMAGE_FLAG_NONE) \<noteq> AVIF_RESULT_OK"
  then show "flushImages c xmp (img # rest) encoder avifImages =
      flushImages c xmp rest (handOver c encoder (snd (convertedFrame c xmp img))) avifImages"
    using flushImages_skip_refused [of c xmp img encoder rest avifImages] by blast
next
  show "fst (flushImages c xmp imgs encoder avifImages) =
     foldl (handOver c) encoder (convertibleFrames c xmp imgs)"
    by (rule flushImages_encoder)
next
  assume ok: "fst (finalized c d) = AVIF_RESULT_OK"
  then show "error (fst (KDynamicWallpaperWriterPrivate_flush c d device)) = error d"
    by (simp add: private_flush_finalized)
  from ok show "errorString (fst (KDynamicWallpaperWriterPrivate_flush c d device)) = errorString d"
    by (simp add: private_flush_finalized)
  from ok show "d_errorString (fst (KDynamicWallpaperWriterPrivate_flush c d device)) = d_errorString d"
    by (simp add: private_flush_finalized)
qed


lemma exampleFrames_eq:
  "exampleFrames =
     [\<lparr>img_format = Format_RGB888, img_width = 5, img_height = 1, img_bytesPerLine = 15,
        img_bits = replicate 15 (CHR 0x7F)\<rparr>,
      \<lparr>img_format = Format_RGB888, img_width = 1, img_height = 3, img_bytesPerLine = 3,
        img_bits = replicate 9 (CHR 0x7F)\<rparr>,
      \<lparr>img_format = Format_RGB888, img_width = 1, img_height = 1, img_bytesPerLine = 3,
        img_bits = replicate 3 (CHR 0x7F)\<rparr>]"
  by (simp add: exampleFrames_def images_def d_images_setImages convertToFormat_def isNull_def
      exampleImage_def exampleCollaborators_def)

lemma convertedFrame_examples:
  "fst (convertedFrame exampleCollaborators xmp (exampleFrames ! 0)) = AVIF_RESULT_OK"
  "fst (convertedFrame exampleCollaborators xmp (exampleFrames ! 1)) \<noteq> AVIF_RESULT_OK"
  "fst (convertedFrame exampleCollaborators xmp (exampleFrames ! 2)) = AVIF_RESULT_OK"
  "fst (avifEncoderAddImage exampleCollaborators []
     (snd (convertedFrame exampleCollaborators xmp (exampleFrames ! 0))) 0
     AVIF_ADD_IMAGE_FLAG_NONE) \<noteq> AVIF_RESULT_OK"
  by (simp_all add: exampleFrames_eq convertedFrame_def exampleCollaborators_def
      avifImageCreate_def avifImageSetMetadataXMP_def avifRGBImageSetDefaults_def
      AVIF_RESULT_OK_def)

lemma exampleFrames_split:
  "exampleFrames = [exampleFrames ! 0] @ exampleFrames ! 1 # [exampleFrames ! 2]"
  by (simp add: exampleFrames_eq)

theorem frame_failures_discard_only_the_frame_witness:
  "d_images (afterFailedFlush\<lparr>d_images := exampleFrames\<rparr>) =
     [exampleFrames ! 0] @ exampleFrames ! 1 # [exampleFrames ! 2] \<and>
   fst (convertedFrame exampleCollaborators
     (serializeMetaData exampleCollaborators (d_metaData (afterFailedFlush\<lparr>d_images := exampleFrames\<rparr>)))
     (exampleFrames ! 1)) \<noteq> AVIF_RESULT_OK \<and>
   KDynamicWallpaperWriterPrivate_flush exampleCollaborators
     (afterFailedFlush\<lparr>d_images := exampleFrames\<rparr>) (closedDevice\<lparr>dev_openMode := WriteOnly\<rparr>) =
     (afterFailedFlush\<lparr>d_images := exampleFrames\<rparr>,
      closedDevice\<lparr>dev_openMode := WriteOnly, dev_bytes := ''avif'' @ replicate 3 (CHR 0x7F)\<rparr>) \<and>
   KDynamicWallpaperWriterPrivate_flush exampleCollaborators
     (afterFailedFlush\<lparr>d_images := [exampleFrames ! 0] @ [exampleFrames ! 2]\<rparr>)
     (closedDevice\<lparr>dev_openMode := WriteOnly\<rparr>) =
     (afterFailedFlush\<lparr>d_images := [exampleFrames ! 0] @ [exampleFrames ! 2]\<rparr>,
      closedDevice\<lparr>dev_openMode := WriteOnly, dev_bytes := ''avif'' @ replicate 3 (CHR 0x7F)\<rparr>) \<and>
   error (fst (KDynamicWallpaperWriterPrivate_flush exampleCollaborators
     (afterFailedFlush\<lparr>d_images := exampleFrames\<rparr>) (closedDevice\<lparr>dev_openMode := WriteOnly\<rparr>))) =
     DeviceError \<and>
   flushImages exampleCollaborators ''x''
     ([exampleFrames ! 0] @ exampleFrames ! 1 # [exampleFrames ! 2]) [] [] =
   flushImages exampleCollaborators ''x'' ([exampleFrames ! 0] @ [exampleFrames ! 2]) [] [] \<and>
   fst (convertedFrame exampleCollaborators ''x'' (exampleFrames ! 0)) = AVIF_RESULT_OK \<and>
   fst (avifEncoderAddImage exampleCollaborators []
     (snd (convertedFrame exampleCollaborators ''x'' (exampleFrames ! 0))) 0
     AVIF_ADD_IMAGE_FLAG_NONE) \<noteq> AVIF_RESULT_OK \<and>
   flushImages exampleCollaborators ''x'' (exampleFrames ! 0 # [exampleFrames ! 2]) [] [] =
   flushImages exampleCollaborators ''x'' [exampleFrames ! 2] [] [] \<and>
   fst (flushImages exampleCollaborators ''x'' exampleFrames [] []) =
     [snd (convertedFrame exampleCollaborators ''x'' (exampleFrames ! 2))]"
proof -
  let ?w = "afterFailedFlush\<lparr>d_images := exampleFrames\<rparr>"
  let ?w' = "afterFailedFlush\<lparr>d_images := [exampleFrames ! 0] @ [exampleFrames ! 2]\<rparr>"
  let ?dev = "closedDevice\<lparr>dev_openMode := WriteOnly\<rparr>"
  let ?xmp = "serializeMetaData exampleCollaborators (d_metaData ?w)"
  note inst = frame_failures_discard_only_the_frame [where c = exampleCollaborators
      and d = ?w and device = ?dev and img = "exampleFrames ! 1"
      and before' = "[exampleFrames ! 0]" and rest = "[exampleFrames ! 2]" and xmp = "''x''"
      and encoder = "[]" and avifImages = "[]" and imgs = exampleFrames]
  note inst0 = frame_failures_discard_only_the_frame [where c = exampleCollaborators
      and d = ?w' and device = ?dev and img = "exampleFrames ! 0"
      and before' = "[]" and rest = "[exampleFrames ! 2]" and xmp = "''x''"
      and encoder = "[]" and avifImages = "[]" and imgs = exampleFrames]
  have split: "d_images ?w = [exampleFrames ! 0] @ exampleFrames ! 1 # [exampleFrames ! 2]"
    using exampleFrames_split by simp
  have fails: "fst (convertedFrame exampleCollaborators ?xmp (exampleFrames ! 1)) \<noteq> AVIF_RESULT_OK"
    by (rule convertedFrame_examples)
  have h: "handOver exampleCollaborators []
      (snd (convertedFrame exampleCollaborators xmp (exampleFrames ! 0))) = []" for xmp
    by (simp add: handOver_def exampleFrames_eq convertedFrame_def exampleCollaborators_def
      avifImageCreate_def avifImageSetMetadataXMP_def avifRGBImageSetDefaults_def)
  have frames: "convertibleFrames exampleCollaborators xmp ([exampleFrames ! 0] @ [exampleFrames ! 2]) =
      [snd (convertedFrame exampleCollaborators xmp (exampleFrames ! 0)),
       snd (convertedFrame exampleCollaborators xmp (exampleFrames ! 2))]" for xmp
    using convertedFrame_examples [of xmp] by (simp add: convertibleFrames_def)
  have h2: "handOver exampleCollaborators []
      (snd (convertedFrame exampleCollaborators xmp (exampleFrames ! 2))) =
      [snd (convertedFrame exampleCollaborators xmp (exampleFrames ! 2))]" for xmp
    by (simp add: handOver_def exampleFrames_eq convertedFrame_def exampleCollaborators_def
      avifImageCreate_def avifImageSetMetadataXMP_def avifRGBImageSetDefaults_def)
  have planes: "avif_yuvPlanes (snd (convertedFrame exampleCollaborators xmp (exampleFrames ! 2))) =
      replicate 3 (CHR 0x7F)" for xmp
    by (simp add: exampleFrames_eq convertedFrame_def exampleCollaborators_def
      avifImageCreate_def avifImageSetMetadataXMP_def avifRGBImageSetDefaults_def)
  have create: "avifEncoder_maxThreads_update exampleCollaborators
      (avifEncoderCreate exampleCollaborators) (idealThreadCount exampleCollaborators) = []"
    by (simp add: exampleCollaborators_def)
  have finish: "avifEncoderFinish exampleCollaborators [f] =
      (AVIF_RESULT_OK, ''avif'' @ avif_yuvPlanes f)" for f
    by (simp add: exampleCollaborators_def)
  have run': "KDynamicWallpaperWriterPrivate_flush exampleCollaborators ?w' ?dev =
      (?w', closedDevice\<lparr>dev_openMode := WriteOnly, dev_bytes := ''avif'' @ replicate 3 (CHR 0x7F)\<rparr>)"
    using inst0 [THEN conjunct1]
    by (simp add: Let_def frames [simplified] create h h2 finish planes QIODevice_write_def
        closedDevice_def)
  have run: "KDynamicWallpaperWriterPrivate_flush exampleCollaborators ?w ?dev =
      (?w, closedDevice\<lparr>dev_openMode := WriteOnly, dev_bytes := ''avif'' @ replicate 3 (CHR 0x7F)\<rparr>)"
    using inst [THEN conjunct2, THEN conjunct1] split fails run' exampleFrames_split by simp
  have e: "error ?w = DeviceError"
    by (simp add: afterFailedFlush_eq error_def)
  have f: "foldl (handOver exampleCollaborators) []
      (convertibleFrames exampleCollaborators ''x'' exampleFrames) =
      [snd (convertedFrame exampleCollaborators ''x'' (exampleFrames ! 2))]"
    using convertedFrame_examples [of "''x''"] h [of "''x''"] h2 [of "''x''"]
    by (subst exampleFrames_split) (simp add: convertibleFrames_def)
  show ?thesis
    using split fails run run' e f convertedFrame_examples [of "''x''"] h [of "''x''"] inst inst0
    by (simp del: flushImages.simps)
qed

end
